theory Spec2Isabelle
  imports Complex_Main
begin

section \<open>Tensors\<close>

text \<open>
  The script \<^verbatim>\<open>pretraining.py\<close> computes on TensorFlow tensors and NumPy arrays.
  A rank-2 array is a list of rows; a batch of \<open>B\<close> vectors of width \<open>P\<close> is the list of
  its \<open>B\<close> rows, so concatenation along axis 0 is list append. Entries are real numbers:
  the arithmetic of the model is exact, rounding of the 32-bit floats is not described.
  A network's weight list (\<^verbatim>\<open>get_weights()\<close>) is a list of such arrays, in
  architecture order.
\<close>

type_synonym vec = "real list"
type_synonym mat = "real list list"
type_synonym weights = "mat list"

text \<open>\<^verbatim>\<open>c * A\<close> for a Python scalar \<open>c\<close>.\<close>

definition mat_scale :: "real \<Rightarrow> mat \<Rightarrow> mat" where
  "mat_scale c A = map (map (\<lambda>x. c * x)) A"

text \<open>
  \<^verbatim>\<open>A + B\<close> for two arrays of one shape, entry by entry. The script only ever adds
  arrays of one shape (two weight tensors of mirrored networks, two \<open>P \<times> P\<close> correlation
  matrices); what the libraries do with operands of different shapes (broadcasting, or
  an exception) is not described here, and every statement about entries below names
  the equal shapes as its hypothesis.
\<close>

definition mat_add :: "mat \<Rightarrow> mat \<Rightarrow> mat" where
  "mat_add A B = map2 (map2 (+)) A B"

definition same_shape :: "mat \<Rightarrow> mat \<Rightarrow> bool" where
  "same_shape A B = (map length A = map length B)"

text \<open>\<^verbatim>\<open>tf.matmul\<close> and \<^verbatim>\<open>tf.transpose\<close> on rank-2 operands with conforming, non-zero dimensions.\<close>

definition matmul :: "mat \<Rightarrow> mat \<Rightarrow> mat" where
  "matmul A B = map (\<lambda>r. map (\<lambda>c. sum_list (map2 (*) r c)) (transpose B)) A"

text \<open>
  Lines 30-33 build \<^verbatim>\<open>tf.keras.losses.CosineSimilarity(axis=0, reduction=NONE)\<close>. Called
  on two matrices the object returns one number per column. It is a loss: the library
  defines it as
  \<^verbatim>\<open>-reduce_sum(l2_normalize(y_true, axis) * l2_normalize(y_pred, axis), axis)\<close>, with
  \<^verbatim>\<open>l2_normalize(x) = x * rsqrt(maximum(reduce_sum(square(x)), 1e-12))\<close>: the negated
  cosine of the angle between the two columns.
\<close>

definition epsilon :: real where
  "epsilon = 1 / 10 ^ 12"

definition l2_normalize :: "vec \<Rightarrow> vec" where
  "l2_normalize u = map (\<lambda>x. x / sqrt (max (sum_list (map (\<lambda>y. y * y) u)) epsilon)) u"

definition cosine_loss_column :: "vec \<Rightarrow> vec \<Rightarrow> real" where
  "cosine_loss_column u v = - sum_list (map2 (*) (l2_normalize u) (l2_normalize v))"

definition cosine_sim :: "mat \<Rightarrow> mat \<Rightarrow> vec" where
  "cosine_sim y_true y_pred = map2 cosine_loss_column (transpose y_true) (transpose y_pred)"

section \<open>The correlation matrix\<close>

text \<open>
  \<^verbatim>\<open>
  def update_f(F, corr, lambda_=0.8):
      if F is None:
          F = corr
      else:
          F = lambda_ * F + (1 - lambda_) * corr
      return F
  \<close>
  The prior matrix is \<open>None\<close> before the first batch. The only call of the script,
  \<^verbatim>\<open>update_f(F, corr)\<close>, leaves \<open>lambda_\<close> at its default.
\<close>

definition update_f :: "mat option \<Rightarrow> mat \<Rightarrow> real \<Rightarrow> mat" where
  "update_f F corr lambda = (case F of
      None \<Rightarrow> corr
    | Some F' \<Rightarrow> mat_add (mat_scale lambda F') (mat_scale (1 - lambda) corr))"

definition lambda_default :: real where
  "lambda_default = 0.8"

section \<open>External collaborators\<close>

text \<open>
  The script imports its data provider (\<^verbatim>\<open>datasets.CIFAR10\<close>), its networks
  (\<^verbatim>\<open>models.ResNet18\<close>, \<^verbatim>\<open>models.ProjectionHead\<close>), its loss
  (\<^verbatim>\<open>losses.byol_loss\<close>) and the numeric library (gradient tape, Adam optimizer,
  eigensolvers). None of them is part of \<^verbatim>\<open>pretraining.py\<close>;
  they are the fields of an environment, and every statement below holds for each
  environment. \<open>'x\<close> is the type of an image batch, \<open>'o\<close> the state of the optimizer
  (step counter and moment slots), \<open>'d\<close> the state of the data provider.

  A network is called as \<^verbatim>\<open>net(input, training=flag)\<close>. The call returns the
  output, which depends on the network's current weights, the input and the flag, and
  it may assign to the network's own weights: in training mode a layer can update its
  non-trainable weights (moving statistics), which \<^verbatim>\<open>get_weights()\<close> returns with
  the rest. So a call gives the output and the weight list after the call. The
  predictor is a second \<^verbatim>\<open>ProjectionHead\<close>; \<open>fc1_kernel\<close> and \<open>fc2_kernel\<close> read
  \<^verbatim>\<open>fc1.get_weights()[0]\<close> and \<^verbatim>\<open>fc2.get_weights()[0]\<close> out of its weight list.

  \<open>tape_gradient L w\<close> is \<^verbatim>\<open>tape.gradient(loss, variables)\<close>: the derivative of the
  taped computation \<open>L\<close>, as a function of the weights one network entered the forward
  pass with, at their value \<open>w\<close>. \<open>apply_gradients o g w\<close> is one call of
  \<^verbatim>\<open>opt.apply_gradients(zip(g, variables))\<close> on optimizer state \<open>o\<close> and a network
  whose weight list is \<open>w\<close> at the time of the call: the weight list after the call
  and the new optimizer state.
\<close>

record ('x, 'o, 'd) env =
  CIFAR10 :: "int \<Rightarrow> 'd"
  num_train_images :: "'d \<Rightarrow> int"
  shuffle_training_data :: "'d \<Rightarrow> 'd"
  get_batch_pretraining :: "'d \<Rightarrow> int \<Rightarrow> int \<Rightarrow> ('x \<times> 'x) \<times> 'd"
  ResNet18 :: "weights \<Rightarrow> 'x \<Rightarrow> bool \<Rightarrow> mat \<times> weights"
  ProjectionHead :: "weights \<Rightarrow> mat \<Rightarrow> bool \<Rightarrow> mat \<times> weights"
  fc1_kernel :: "weights \<Rightarrow> mat"
  fc2_kernel :: "weights \<Rightarrow> mat"
  byol_loss :: "mat \<Rightarrow> mat \<Rightarrow> real"
  tape_gradient :: "(weights \<Rightarrow> real) \<Rightarrow> weights \<Rightarrow> weights"
  apply_gradients :: "'o \<Rightarrow> weights \<Rightarrow> weights \<Rightarrow> weights \<times> 'o"
  eigh :: "mat \<Rightarrow> vec \<times> mat"
  eigvals_real :: "mat \<Rightarrow> vec"

section \<open>The state of a run\<close>

text \<open>
  The exceptions the script itself can raise: the index error of the weight-blending
  loop when the target has fewer weight tensors than the online network, and the
  error of \<^verbatim>\<open>tf.linalg.eigh(F)\<close> while \<open>F\<close> is still \<open>None\<close>.
\<close>

datatype error = Index_error | Eigh_of_None

text \<open>
  What the epoch loop prints and writes. A printed line carries the values it is
  formatted from: \<open>Batch_log (epoch_id + 1) epochs (batch_id + 1) batches_per_epoch loss\<close>.
  A written file is named \<^verbatim>\<open>f_online_<n>.h5\<close> or \<^verbatim>\<open>losses.txt\<close>; the text file holds
  one loss per line.
\<close>

datatype line = Batch_log int int int int real | Weights_saved

datatype path = F_online_h5 int | Losses_txt

datatype content = Saved_weights weights | Loss_lines "real list"

text \<open>
  The variables of \<^verbatim>\<open>main\<close> that the loop reads and writes. The networks are their
  weight lists; \<open>stdout\<close> and \<open>files\<close> record the lines printed and the files written by
  the loop, in order.
\<close>

record ('o, 'd) state =
  F :: "mat option"
  F_eigenval :: "vec list"
  allignment :: "vec list"
  wp_eigenval :: "vec list"
  data :: 'd
  f_online :: weights
  g_online :: weights
  q_online :: weights
  f_target :: weights
  g_target :: weights
  opt :: 'o
  losses :: "real list"
  stdout :: "line list"
  files :: "(path \<times> content) list"

section \<open>One training step\<close>

text \<open>
  Lines 84-86 (and 88-90): one view through the online encoder, projector and predictor,
  all called with \<^verbatim>\<open>training=True\<close>. The result is the projection \<open>z\<close>, the
  prediction \<open>p\<close> and the weights of the three networks after their calls.
\<close>

definition online_forward ::
  "('x, 'o, 'd) env \<Rightarrow> weights \<Rightarrow> weights \<Rightarrow> weights \<Rightarrow> 'x \<Rightarrow>
     (mat \<times> mat) \<times> (weights \<times> weights \<times> weights)" where
  "online_forward env w_f w_g w_q x =
     (let (h_online, w_f') = ResNet18 env w_f x True;
          (z_online, w_g') = ProjectionHead env w_g h_online True;
          (p_online, w_q') = ProjectionHead env w_q z_online True
      in ((z_online, p_online), (w_f', w_g', w_q')))"

text \<open>
  Lines 84-90: view 1, then view 2 on the weights the calls for view 1 left. The result
  is \<open>(z_online_1, z_online_2, p_online_1, p_online_2)\<close> and the weights after the six
  calls.
\<close>

definition online_pass ::
  "('x, 'o, 'd) env \<Rightarrow> 'x \<Rightarrow> 'x \<Rightarrow> weights \<Rightarrow> weights \<Rightarrow> weights \<Rightarrow>
     (mat \<times> mat \<times> mat \<times> mat) \<times> (weights \<times> weights \<times> weights)" where
  "online_pass env x1 x2 w_f w_g w_q =
     (let ((z_online_1, p_online_1), (w_f1, w_g1, w_q1)) = online_forward env w_f w_g w_q x1;
          ((z_online_2, p_online_2), (w_f2, w_g2, w_q2)) = online_forward env w_f1 w_g1 w_q1 x2
      in ((z_online_1, z_online_2, p_online_1, p_online_2), (w_f2, w_g2, w_q2)))"

text \<open>
  Lines 77-78 (and 80-81): one view through the target encoder and projector, called
  with \<^verbatim>\<open>training=True\<close>, before the gradient tape is opened. The result is the
  target projection and the weights of the two networks after their calls.
\<close>

definition target_forward ::
  "('x, 'o, 'd) env \<Rightarrow> weights \<Rightarrow> weights \<Rightarrow> 'x \<Rightarrow> mat \<times> (weights \<times> weights)" where
  "target_forward env w_f w_g x =
     (let (h_target, w_f') = ResNet18 env w_f x True;
          (z_target, w_g') = ProjectionHead env w_g h_target True
      in (z_target, (w_f', w_g')))"

text \<open>Lines 77-81: view 1, then view 2 on the weights the calls for view 1 left.\<close>

definition target_pass ::
  "('x, 'o, 'd) env \<Rightarrow> 'x \<Rightarrow> 'x \<Rightarrow> weights \<Rightarrow> weights \<Rightarrow>
     (mat \<times> mat) \<times> (weights \<times> weights)" where
  "target_pass env x1 x2 w_f w_g =
     (let (z_target_1, (w_f1, w_g1)) = target_forward env w_f w_g x1;
          (z_target_2, (w_f2, w_g2)) = target_forward env w_f1 w_g1 x2
      in ((z_target_1, z_target_2), (w_f2, w_g2)))"

text \<open>
  The computation recorded on the tape (lines 83-94), as a function of the weights
  the three online networks enter it with. The target projections \<open>z_target\<close> were
  computed outside the tape and enter as a constant.
\<close>

definition taped_loss ::
  "('x, 'o, 'd) env \<Rightarrow> 'x \<Rightarrow> 'x \<Rightarrow> mat \<Rightarrow> weights \<Rightarrow> weights \<Rightarrow> weights \<Rightarrow> real" where
  "taped_loss env x1 x2 z_target w_f w_g w_q =
     (let ((z_online_1, z_online_2, p_online_1, p_online_2), ws) =
            online_pass env x1 x2 w_f w_g w_q;
          p_online = p_online_1 @ p_online_2
      in byol_loss env p_online z_target)"

text \<open>
  Lines 105-108. \<^verbatim>\<open>tf.expand_dims(z, 2)\<close> turns each row of \<open>z\<close> into a column,
  \<^verbatim>\<open>tf.expand_dims(z, 1)\<close> into a one-row matrix; the batched product is the outer
  product of each row with itself. \<^verbatim>\<open>tf.reduce_mean(corr, axis=0)\<close> averages the
  \<open>2B\<close> matrices entry by entry. (For an empty batch TensorFlow returns a matrix of
  NaN; batches have the fixed size 512, and the empty case is given as the empty
  matrix here.)
\<close>

definition expand_dims_2 :: "mat \<Rightarrow> mat list" where
  "expand_dims_2 z = map (\<lambda>v. map (\<lambda>a. [a]) v) z"

definition expand_dims_1 :: "mat \<Rightarrow> mat list" where
  "expand_dims_1 z = map (\<lambda>v. [v]) z"

definition batch_matmul :: "mat list \<Rightarrow> mat list \<Rightarrow> mat list" where
  "batch_matmul As Bs = map2 matmul As Bs"

definition reduce_mean0 :: "mat list \<Rightarrow> mat" where
  "reduce_mean0 ms = (case ms of
      [] \<Rightarrow> []
    | m # rest \<Rightarrow> map (map (\<lambda>x. x / real (length ms))) (foldl mat_add m rest))"

definition batch_corr :: "mat \<Rightarrow> mat \<Rightarrow> mat" where
  "batch_corr z_online_1 z_online_2 =
     (let corr_1 = batch_matmul (expand_dims_2 z_online_1) (expand_dims_1 z_online_1);
          corr_2 = batch_matmul (expand_dims_2 z_online_2) (expand_dims_1 z_online_2);
          corr = corr_1 @ corr_2
      in reduce_mean0 corr)"

text \<open>
  \<^verbatim>\<open>train_step_pretraining(x1, x2, F)\<close>, lines 74-112. The function closes over the five
  networks and the optimizer; here it takes the state and returns the pair
  \<^verbatim>\<open>(loss, F)\<close> with the state after the step: the target networks as their forward
  calls left them, the online networks as the three optimizer calls left them. The tape
  is persistent: all three gradients are derivatives of the one recorded forward pass,
  at the weights the networks entered it with; each optimizer call assigns to the
  network as the forward pass left it.
\<close>

definition train_step_pretraining ::
  "('x, 'o, 'd) env \<Rightarrow> ('o, 'd) state \<Rightarrow> 'x \<Rightarrow> 'x \<Rightarrow> mat option \<Rightarrow>
     (real \<times> mat) \<times> ('o, 'd) state" where
  "train_step_pretraining env s x1 x2 F_prev =
     (let ((z_target_1, z_target_2), (t_f, t_g)) =
            target_pass env x1 x2 (f_target s) (g_target s);
          w_f = f_online s; w_g = g_online s; w_q = q_online s;
          ((z_online_1, z_online_2, p_online_1, p_online_2), (w_f2, w_g2, w_q2)) =
            online_pass env x1 x2 w_f w_g w_q;
          p_online = p_online_1 @ p_online_2;
          z_target = z_target_2 @ z_target_1;
          loss = byol_loss env p_online z_target;
          grads_f = tape_gradient env (\<lambda>w. taped_loss env x1 x2 z_target w w_g w_q) w_f;
          (w_f', opt1) = apply_gradients env (opt s) grads_f w_f2;
          grads_g = tape_gradient env (\<lambda>w. taped_loss env x1 x2 z_target w_f w w_q) w_g;
          (w_g', opt2) = apply_gradients env opt1 grads_g w_g2;
          grads_q = tape_gradient env (\<lambda>w. taped_loss env x1 x2 z_target w_f w_g w) w_q;
          (w_q', opt3) = apply_gradients env opt2 grads_q w_q2;
          corr = batch_corr z_online_1 z_online_2;
          F_new = update_f F_prev corr lambda_default
      in ((loss, F_new),
          s\<lparr>f_target := t_f, g_target := t_g,
            f_online := w_f', g_online := w_g', q_online := w_q', opt := opt3\<rparr>))"

section \<open>The moving average of the target weights\<close>

text \<open>
  Lines 131-135 (and 137-141 for the projector):
  \<^verbatim>\<open>
  f_target_weights = f_target.get_weights()
  f_online_weights = f_online.get_weights()
  for i in range(len(f_online_weights)):
      f_target_weights[i] = beta * f_target_weights[i] + (1 - beta) * f_online_weights[i]
  f_target.set_weights(f_target_weights)
  \<close>
  The loop runs over the indices of the online list; reading \<open>f_target_weights[i]\<close> past
  the end of the target list raises, and then \<open>set_weights\<close> is never reached.
\<close>

fun ema_loop :: "real \<Rightarrow> weights \<Rightarrow> nat list \<Rightarrow> weights \<Rightarrow> error + weights" where
  "ema_loop beta online_weights [] target_weights = Inr target_weights"
| "ema_loop beta online_weights (i # rest) target_weights =
     (if i < length target_weights
      then ema_loop beta online_weights rest
             (target_weights[i := mat_add (mat_scale beta (target_weights ! i))
                                          (mat_scale (1 - beta) (online_weights ! i))])
      else Inl Index_error)"

definition ema_update :: "real \<Rightarrow> weights \<Rightarrow> weights \<Rightarrow> error + weights" where
  "ema_update beta target_weights online_weights =
     ema_loop beta online_weights [0..<length online_weights] target_weights"

definition beta :: real where
  "beta = 0.99"

section \<open>The loops of \<open>main\<close>\<close>

text \<open>
  A run that raises stops with the error and the state reached: \<open>Inl (e, s)\<close>.

  Lines 124-125: fetch the two views of the batch and run the training step on them.
  The result is \<^verbatim>\<open>(loss, F)\<close> and the state after the step.
\<close>

definition fetch_and_step ::
  "('x, 'o, 'd) env \<Rightarrow> int \<Rightarrow> ('o, 'd) state \<Rightarrow> (real \<times> mat) \<times> ('o, 'd) state" where
  "fetch_and_step env batch_id s =
     (let ((x1, x2), d) = get_batch_pretraining env (data s) batch_id 512
      in train_step_pretraining env (s\<lparr>data := d\<rparr>) x1 x2 (F s))"

text \<open>
  The correlation snapshot of a batch (lines 105-108): \<open>corr\<close> as the training step on
  this batch computes it from the two online projections.
\<close>

definition batch_snapshot :: "('x, 'o, 'd) env \<Rightarrow> int \<Rightarrow> ('o, 'd) state \<Rightarrow> mat" where
  "batch_snapshot env batch_id s =
     (let ((x1, x2), d) = get_batch_pretraining env (data s) batch_id 512;
          ((z_online_1, z_online_2, p_online_1, p_online_2), ws) =
            online_pass env x1 x2 (f_online s) (g_online s) (q_online s)
      in batch_corr z_online_1 z_online_2)"

text \<open>The body of the batch loop, lines 124-144.\<close>

definition batch_body ::
  "('x, 'o, 'd) env \<Rightarrow> int \<Rightarrow> int \<Rightarrow> int \<Rightarrow> int \<Rightarrow> ('o, 'd) state \<Rightarrow>
     (error \<times> ('o, 'd) state) + ('o, 'd) state" where
  "batch_body env epochs batches_per_epoch epoch_id batch_id s =
     (let ((loss, F_new), s1) = fetch_and_step env batch_id s;
          s2 = s1\<lparr>F := Some F_new, losses := losses s1 @ [loss]\<rparr>
      in case ema_update beta (f_target s2) (f_online s2) of
           Inl e \<Rightarrow> Inl (e, s2)
         | Inr f_target_weights \<Rightarrow>
             (let s3 = s2\<lparr>f_target := f_target_weights\<rparr>
              in case ema_update beta (g_target s3) (g_online s3) of
                   Inl e \<Rightarrow> Inl (e, s3)
                 | Inr g_target_weights \<Rightarrow>
                     (let s4 = s3\<lparr>g_target := g_target_weights\<rparr>
                      in if (batch_id + 1) mod 10 = 0
                         then Inr (s4\<lparr>stdout := stdout s4 @
                                [Batch_log (epoch_id + 1) epochs (batch_id + 1)
                                   batches_per_epoch loss]\<rparr>)
                         else Inr s4)))"

fun batch_loop ::
  "('x, 'o, 'd) env \<Rightarrow> int \<Rightarrow> int \<Rightarrow> int \<Rightarrow> int list \<Rightarrow> ('o, 'd) state \<Rightarrow>
     (error \<times> ('o, 'd) state) + ('o, 'd) state" where
  "batch_loop env epochs batches_per_epoch epoch_id [] s = Inr s"
| "batch_loop env epochs batches_per_epoch epoch_id (batch_id # rest) s =
     (case batch_body env epochs batches_per_epoch epoch_id batch_id s of
        Inl x \<Rightarrow> Inl x
      | Inr s' \<Rightarrow> batch_loop env epochs batches_per_epoch epoch_id rest s')"

text \<open>Python's \<^verbatim>\<open>range(n)\<close> for an integer \<open>n\<close>: empty when \<open>n \<le> 0\<close>.\<close>

definition py_range :: "int \<Rightarrow> int list" where
  "py_range n = map int [0..<nat n]"

text \<open>Lines 146-148: the checkpoint of the online encoder, every 100th epoch.\<close>

definition save_checkpoint :: "int \<Rightarrow> ('o, 'd) state \<Rightarrow> ('o, 'd) state" where
  "save_checkpoint epoch_id s =
     (if (epoch_id + 1) mod 100 = 0
      then s\<lparr>files := files s @ [(F_online_h5 (epoch_id + 1), Saved_weights (f_online s))],
             stdout := stdout s @ [Weights_saved]\<rparr>
      else s)"

text \<open>
  Lines 151-166, the body of \<^verbatim>\<open>if epoch_id % 5 == 0\<close>: the alignment tracker.
  \<^verbatim>\<open>tf.linalg.eigh(None)\<close> raises before anything is appended.
\<close>

definition track_alignment ::
  "('x, 'o, 'd) env \<Rightarrow> ('o, 'd) state \<Rightarrow> (error \<times> ('o, 'd) state) + ('o, 'd) state" where
  "track_alignment env s = (case F s of
      None \<Rightarrow> Inl (Eigh_of_None, s)
    | Some F_cur \<Rightarrow>
        (let (eigval, eigvec) = eigh env F_cur;
             s1 = s\<lparr>F_eigenval := F_eigenval s @ [eigval]\<rparr>;
             w1 = fc1_kernel env (q_online s1);
             w2 = fc2_kernel env (q_online s1);
             wp = matmul w1 w2;
             wp = transpose wp;
             wp_eigval = eigvals_real env wp;
             s2 = s1\<lparr>wp_eigenval := wp_eigenval s1 @ [wp_eigval]\<rparr>;
             wp_v = matmul wp eigvec;
             cosine = cosine_sim eigvec wp_v
         in Inr (s2\<lparr>allignment := allignment s2 @ [cosine]\<rparr>)))"

text \<open>Lines 146-166: what an epoch does after its batches.\<close>

definition epoch_end ::
  "('x, 'o, 'd) env \<Rightarrow> int \<Rightarrow> ('o, 'd) state \<Rightarrow> (error \<times> ('o, 'd) state) + ('o, 'd) state" where
  "epoch_end env epoch_id s =
     (let s1 = save_checkpoint epoch_id s
      in if epoch_id mod 5 = 0 then track_alignment env s1 else Inr s1)"

text \<open>The body of the epoch loop, lines 121-166.\<close>

definition epoch_body ::
  "('x, 'o, 'd) env \<Rightarrow> int \<Rightarrow> int \<Rightarrow> int \<Rightarrow> ('o, 'd) state \<Rightarrow>
     (error \<times> ('o, 'd) state) + ('o, 'd) state" where
  "epoch_body env epochs batches_per_epoch epoch_id s =
     (let s0 = s\<lparr>data := shuffle_training_data env (data s)\<rparr>
      in case batch_loop env epochs batches_per_epoch epoch_id (py_range batches_per_epoch) s0 of
           Inl x \<Rightarrow> Inl x
         | Inr s1 \<Rightarrow> epoch_end env epoch_id s1)"

fun epoch_loop ::
  "('x, 'o, 'd) env \<Rightarrow> int \<Rightarrow> int \<Rightarrow> int list \<Rightarrow> ('o, 'd) state \<Rightarrow>
     (error \<times> ('o, 'd) state) + ('o, 'd) state" where
  "epoch_loop env epochs batches_per_epoch [] s = Inr s"
| "epoch_loop env epochs batches_per_epoch (epoch_id # rest) s =
     (case epoch_body env epochs batches_per_epoch epoch_id s of
        Inl x \<Rightarrow> Inl x
      | Inr s' \<Rightarrow> epoch_loop env epochs batches_per_epoch rest s')"

text \<open>
  Lines 36-70 construct the data provider, the five networks and the optimizer, force
  the creation of the weights by a forward pass on a random batch and print start-up
  messages. The weights so created and the fresh optimizer are the record \<open>built\<close>;
  the start-up messages are not part of \<open>stdout\<close> below.
\<close>

record 'o built =
  built_f_online :: weights
  built_g_online :: weights
  built_q_online :: weights
  built_f_target :: weights
  built_g_target :: weights
  built_opt :: 'o

definition initial_state ::
  "('x, 'o, 'd) env \<Rightarrow> 'o built \<Rightarrow> int \<Rightarrow> ('o, 'd) state" where
  "initial_state env b num_samples =
     \<lparr>F = None, F_eigenval = [], allignment = [], wp_eigenval = [],
      data = CIFAR10 env num_samples,
      f_online = built_f_online b, g_online = built_g_online b, q_online = built_q_online b,
      f_target = built_f_target b, g_target = built_g_target b,
      opt = built_opt b, losses = [], stdout = [], files = []\<rparr>"

text \<open>
  \<^verbatim>\<open>main(epochs, num_samples)\<close>. A run that returns gives the three logs and the final
  state, whose \<open>files\<close> end with \<^verbatim>\<open>losses.txt\<close>.
\<close>

definition main ::
  "('x, 'o, 'd) env \<Rightarrow> 'o built \<Rightarrow> int \<Rightarrow> int \<Rightarrow>
     (error \<times> ('o, 'd) state) + ((vec list \<times> vec list \<times> vec list) \<times> ('o, 'd) state)" where
  "main env b epochs num_samples =
     (let s0 = initial_state env b num_samples;
          batches_per_epoch = num_train_images env (data s0) div 512
      in case epoch_loop env epochs batches_per_epoch (py_range epochs) s0 of
           Inl x \<Rightarrow> Inl x
         | Inr s \<Rightarrow>
             (let s' = s\<lparr>files := files s @ [(Losses_txt, Loss_lines (losses s))]\<rparr>
              in Inr ((F_eigenval s', allignment s', wp_eigenval s'), s')))"

text \<open>The state a run reached, whether it returned or raised.\<close>

definition reached :: "(error \<times> ('o, 'd) state) + ('o, 'd) state \<Rightarrow> ('o, 'd) state" where
  "reached r = (case r of Inl (e, s) \<Rightarrow> s | Inr s \<Rightarrow> s)"

section \<open>Notions used in the statements\<close>

text \<open>
  Every call that assigns to the variables of a network keeps their shapes: an
  optimizer call and a forward call give each variable a new value of the variable's
  shape, so a weight list keeps its length and the shapes of its tensors.
\<close>

definition keeps_shapes :: "('x, 'o, 'd) env \<Rightarrow> bool" where
  "keeps_shapes env =
     ((\<forall>n g w. list_all2 same_shape (fst (apply_gradients env n g w)) w) \<and>
      (\<forall>w x t. list_all2 same_shape (snd (ResNet18 env w x t)) w) \<and>
      (\<forall>w h t. list_all2 same_shape (snd (ProjectionHead env w h t)) w))"

text \<open>
  Target and online networks have one architecture (lines 39-44 build them with the
  same constructors): the weight lists agree in length and, position by position, in
  shape.
\<close>

definition mirrored :: "('o, 'd) state \<Rightarrow> bool" where
  "mirrored s = (list_all2 same_shape (f_target s) (f_online s) \<and>
                 list_all2 same_shape (g_target s) (g_online s))"

text \<open>A batch of at least one projection vector, each of width \<open>P\<close>.\<close>

definition batch_of_width :: "nat \<Rightarrow> mat \<Rightarrow> bool" where
  "batch_of_width P z = (z \<noteq> [] \<and> list_all (\<lambda>v. length v = P) z)"

text \<open>
  The shape contract of the pipeline from the data provider to the projector: on each
  of the two views of every batch the provider hands out, and for every projector whose
  weights have the shapes of \<open>g0\<close>, the online projection is a batch of vectors of
  width \<open>P\<close>.
\<close>

definition projects_to :: "('x, 'o, 'd) env \<Rightarrow> nat \<Rightarrow> weights \<Rightarrow> bool" where
  "projects_to env P g0 =
     (\<forall>d batch_id w_f w_g w_q. list_all2 same_shape w_g g0 \<longrightarrow>
        batch_of_width P (fst (fst (online_forward env w_f w_g w_q
          (fst (fst (get_batch_pretraining env d batch_id 512)))))) \<and>
        batch_of_width P (fst (fst (online_forward env w_f w_g w_q
          (snd (fst (get_batch_pretraining env d batch_id 512)))))))"

text \<open>A symmetric \<open>P \<times> P\<close> matrix.\<close>

definition sym_mat :: "nat \<Rightarrow> mat \<Rightarrow> bool" where
  "sym_mat P A = (length A = P \<and> list_all (\<lambda>r. length r = P) A \<and>
                  (\<forall>i<P. \<forall>j<P. A ! i ! j = A ! j ! i))"

definition F_symmetric :: "nat \<Rightarrow> ('o, 'd) state \<Rightarrow> bool" where
  "F_symmetric P s = (case F s of None \<Rightarrow> True | Some A \<Rightarrow> sym_mat P A)"


text \<open>
  The reading of the target branch that the specification words as inference mode:
  the target encoder and projector called with \<^verbatim>\<open>training=False\<close>. It is compared
  with \<open>target_forward\<close>, the call the script makes.
\<close>

definition inference_targets :: "('x, 'o, 'd) env \<Rightarrow> weights \<Rightarrow> weights \<Rightarrow> 'x \<Rightarrow> mat" where
  "inference_targets env w_f w_g x =
     (let (h_target, w_f') = ResNet18 env w_f x False
      in fst (ProjectionHead env w_g h_target False))"

text \<open>
  The cosine similarity of two vectors, as the specification words the alignment score:
  the inner product divided by the product of the norms. It is compared with
  \<open>cosine_loss_column\<close>, the value the script's object returns.
\<close>

definition cosine_similarity :: "vec \<Rightarrow> vec \<Rightarrow> real" where
  "cosine_similarity u v =
     sum_list (map2 (*) u v) /
       (sqrt (sum_list (map (\<lambda>y. y * y) u)) * sqrt (sum_list (map (\<lambda>y. y * y) v)))"

definition column_similarities :: "mat \<Rightarrow> mat \<Rightarrow> vec" where
  "column_similarities A B = map2 cosine_similarity (transpose A) (transpose B)"

section \<open>A small environment\<close>

text \<open>
  A concrete environment on which the definitions can be evaluated. Image batches are
  matrices. The encoder is a linear layer (its first weight) whose output is doubled in
  training mode; its second weight is a statistic that every call in training mode
  increases by one. A projection head is two linear layers and leaves its weights alone.
  The loss is the negated sum of the inner products of paired rows, the gradient is the
  loss value itself, an optimizer call subtracts one eightieth of it from every weight
  and counts the call. The eigensolvers are those of a diagonal 2 x 2 matrix: the
  eigenvalues are the row sums, the eigenvectors the unit vectors. The data provider
  holds its number of training images and always hands out the same two views.
\<close>

definition toy_env :: "(mat, nat, int) env" where
  "toy_env =
     \<lparr>CIFAR10 = (\<lambda>n. n),
      num_train_images = (\<lambda>d. d),
      shuffle_training_data = (\<lambda>d. d),
      get_batch_pretraining = (\<lambda>d batch_id batch_size. (([[1, 2]], [[3, 4]]), d)),
      ResNet18 = (\<lambda>w x training.
        (mat_scale (if training then 2 else 1) (matmul x (w ! 0)),
         if training then w[1 := map (map (\<lambda>m. m + 1)) (w ! 1)] else w)),
      ProjectionHead = (\<lambda>w h training. (matmul (matmul h (w ! 0)) (w ! 1), w)),
      fc1_kernel = (\<lambda>w. w ! 0),
      fc2_kernel = (\<lambda>w. w ! 1),
      byol_loss = (\<lambda>p z. - sum_list (map2 (\<lambda>a b. sum_list (map2 (*) a b)) p z)),
      tape_gradient = (\<lambda>L w. [[[L w]]]),
      apply_gradients = (\<lambda>n g w.
        (map (map (map (\<lambda>x. x - (case g of ((v # _) # _) # _ \<Rightarrow> v | _ \<Rightarrow> 0) / 80))) w,
         Suc n)),
      eigh = (\<lambda>m. (map sum_list m, [[1, 0], [0, 1]])),
      eigvals_real = (\<lambda>m. map sum_list m)\<rparr>"

definition toy_built :: "nat built" where
  "toy_built =
     \<lparr>built_f_online = [[[1, 0], [0, 1]], [[0, 0]]],
      built_g_online = [[[1, 0], [0, 1]], [[1, 0], [0, 1]]],
      built_q_online = [[[1, 0], [0, 1]], [[0, 1], [1, 0]]],
      built_f_target = [[[1, 0], [0, 1]], [[0, 0]]],
      built_g_target = [[[1, 0], [0, 1]], [[1, 0], [0, 1]]],
      built_opt = 0\<rparr>"

definition toy_state :: "(nat, int) state" where
  "toy_state = initial_state toy_env toy_built 512"


text \<open>A state whose \<open>F\<close> is set and whose predictor has two identity kernels.\<close>

definition tracked_state :: "(nat, int) state" where
  "tracked_state = toy_state\<lparr>F := Some [[2, 0], [0, 3]],
     q_online := [[[1, 0], [0, 1]], [[1, 0], [0, 1]]]\<rparr>"

section \<open>Entries of sums and multiples\<close>

lemma length_mat_scale [simp]: "length (mat_scale c A) = length A"
  by (simp add: mat_scale_def)

lemma length_mat_add [simp]: "length (mat_add A B) = min (length A) (length B)"
  by (simp add: mat_add_def)

lemma same_shape_length: "same_shape A B \<Longrightarrow> length A = length B"
  unfolding same_shape_def by (metis length_map)

lemma same_shape_row:
  assumes "same_shape A B" and "i < length A"
  shows "length (A ! i) = length (B ! i)"
proof -
  have "map length A ! i = map length B ! i"
    using assms(1) by (simp add: same_shape_def)
  moreover have "i < length B"
    using assms same_shape_length by fastforce
  ultimately show ?thesis
    using assms(2) by simp
qed

lemma same_shape_refl [simp]: "same_shape A A"
  by (simp add: same_shape_def)

lemma mat_scale_entry:
  "i < length A \<Longrightarrow> j < length (A ! i) \<Longrightarrow> mat_scale c A ! i ! j = c * A ! i ! j"
  by (simp add: mat_scale_def)

lemma mat_add_entry:
  assumes "i < length A" and "i < length B"
    and "j < length (A ! i)" and "j < length (B ! i)"
  shows "mat_add A B ! i ! j = A ! i ! j + B ! i ! j"
  using assms by (simp add: mat_add_def)

lemma mat_add_row_length:
  "i < length A \<Longrightarrow> i < length B \<Longrightarrow>
     length (mat_add A B ! i) = min (length (A ! i)) (length (B ! i))"
  by (simp add: mat_add_def)

lemma mat_scale_row_length:
  "i < length A \<Longrightarrow> length (mat_scale c A ! i) = length (A ! i)"
  by (simp add: mat_scale_def)

lemma blend_entry:
  assumes "same_shape A B" and "i < length A" and "j < length (A ! i)"
  shows "mat_add (mat_scale c A) (mat_scale d B) ! i ! j = c * A ! i ! j + d * B ! i ! j"
proof -
  have lb: "i < length B"
    using assms(1,2) same_shape_length by fastforce
  have rb: "j < length (B ! i)"
    using assms same_shape_row by fastforce
  show ?thesis
    using assms(2,3) lb rb
    by (simp add: mat_add_entry mat_scale_entry mat_scale_row_length)
qed

lemma blend_same_shape:
  "same_shape A B \<Longrightarrow> same_shape (mat_add (mat_scale c A) (mat_scale d B)) A"
  unfolding same_shape_def mat_add_def mat_scale_def
proof (induction A arbitrary: B)
  case Nil
  then show ?case by simp
next
  case (Cons a A)
  then obtain b B' where "B = b # B'"
    by (cases B) auto
  with Cons show ?case by simp
qed

section \<open>The blending loop\<close>

lemma ema_loop_upt:
  assumes "n \<le> length tw" and "k \<le> n"
  shows "\<exists>tw'. ema_loop b ow [k..<n] tw = Inr tw' \<and> length tw' = length tw \<and>
     (\<forall>i<length tw. tw' ! i =
        (if k \<le> i \<and> i < n
         then mat_add (mat_scale b (tw ! i)) (mat_scale (1 - b) (ow ! i))
         else tw ! i))"
  using assms
proof (induction "n - k" arbitrary: k tw)
  case 0
  then show ?case by auto
next
  case (Suc d)
  let ?tw = "tw[k := mat_add (mat_scale b (tw ! k)) (mat_scale (1 - b) (ow ! k))]"
  from Suc.hyps(2) have kn: "k < n" by simp
  then have upt: "[k..<n] = k # [Suc k..<n]"
    by (simp add: upt_conv_Cons)
  have d: "d = n - Suc k" using Suc.hyps(2) by simp
  have "n \<le> length ?tw" using Suc.prems by simp
  moreover have "Suc k \<le> n" using kn by simp
  ultimately obtain tw' where r: "ema_loop b ow [Suc k..<n] ?tw = Inr tw'"
    and l: "length tw' = length ?tw"
    and e: "\<forall>i<length ?tw. tw' ! i =
        (if Suc k \<le> i \<and> i < n
         then mat_add (mat_scale b (?tw ! i)) (mat_scale (1 - b) (ow ! i))
         else ?tw ! i)"
    using Suc.hyps(1) [OF d] by blast
  have klt: "k < length tw" using kn Suc.prems by simp
  have "ema_loop b ow [k..<n] tw = Inr tw'"
    using upt klt r by simp
  moreover have "length tw' = length tw" using l by simp
  moreover have "\<forall>i<length tw. tw' ! i =
        (if k \<le> i \<and> i < n
         then mat_add (mat_scale b (tw ! i)) (mat_scale (1 - b) (ow ! i))
         else tw ! i)"
  proof (intro allI impI)
    fix i assume i: "i < length tw"
    show "tw' ! i = (if k \<le> i \<and> i < n
         then mat_add (mat_scale b (tw ! i)) (mat_scale (1 - b) (ow ! i))
         else tw ! i)"
    proof (cases "i = k")
      case True
      then show ?thesis using e i kn by simp
    next
      case False
      then show ?thesis using e i by auto
    qed
  qed
  ultimately show ?case by blast
qed

lemma ema_update_total:
  assumes "length ow \<le> length tw"
  shows "\<exists>tw'. ema_update b tw ow = Inr tw' \<and> length tw' = length tw \<and>
     (\<forall>i<length tw. tw' ! i =
        (if i < length ow
         then mat_add (mat_scale b (tw ! i)) (mat_scale (1 - b) (ow ! i))
         else tw ! i))"
  using ema_loop_upt [OF assms, of 0 b ow] by (simp add: ema_update_def)

lemma same_shape_trans: "same_shape A B \<Longrightarrow> same_shape B C \<Longrightarrow> same_shape A C"
  by (simp add: same_shape_def)

lemma shapes_trans:
  "list_all2 same_shape xs ys \<Longrightarrow> list_all2 same_shape ys zs \<Longrightarrow> list_all2 same_shape xs zs"
  using list_all2_trans [of same_shape same_shape same_shape xs ys zs] same_shape_trans
  by blast

lemma ema_update_mirrored:
  assumes m: "list_all2 same_shape tw ow"
  shows "\<exists>tw'. ema_update b tw ow = Inr tw' \<and> length tw' = length tw \<and>
     list_all2 same_shape tw' ow \<and>
     (\<forall>i<length tw. tw' ! i = mat_add (mat_scale b (tw ! i)) (mat_scale (1 - b) (ow ! i)))"
proof -
  have len: "length tw = length ow"
    using m by (rule list_all2_lengthD)
  then obtain tw' where r: "ema_update b tw ow = Inr tw'" and l: "length tw' = length tw"
    and e: "\<forall>i<length tw. tw' ! i =
        (if i < length ow
         then mat_add (mat_scale b (tw ! i)) (mat_scale (1 - b) (ow ! i))
         else tw ! i)"
    using ema_update_total [of ow tw b] by auto
  have e': "\<forall>i<length tw. tw' ! i = mat_add (mat_scale b (tw ! i)) (mat_scale (1 - b) (ow ! i))"
    using e len by simp
  have "list_all2 same_shape tw' ow"
  proof (rule list_all2_all_nthI)
    show "length tw' = length ow" using l len by simp
  next
    fix i assume "i < length tw'"
    then have i: "i < length tw" using l by simp
    then have s: "same_shape (tw ! i) (ow ! i)"
      using m by (simp add: list_all2_nthD)
    have "same_shape (tw' ! i) (tw ! i)"
      using e' i blend_same_shape [OF s] by simp
    then show "same_shape (tw' ! i) (ow ! i)"
      using s same_shape_trans by blast
  qed
  then show ?thesis using r l e' by blast
qed

lemma ema_update_entries:
  assumes m: "list_all2 same_shape tw ow" and r: "ema_update b tw ow = Inr tw'"
  shows "\<forall>i<length tw. \<forall>r<length (tw ! i). \<forall>c<length (tw ! i ! r).
           tw' ! i ! r ! c = b * tw ! i ! r ! c + (1 - b) * ow ! i ! r ! c"
proof (intro allI impI)
  fix i r c
  assume i: "i < length tw" and rr: "r < length (tw ! i)" and c: "c < length (tw ! i ! r)"
  have s: "same_shape (tw ! i) (ow ! i)"
    using m i by (simp add: list_all2_nthD)
  have "tw' ! i = mat_add (mat_scale b (tw ! i)) (mat_scale (1 - b) (ow ! i))"
    using ema_update_mirrored [OF m, of b] r i by auto
  then show "tw' ! i ! r ! c = b * tw ! i ! r ! c + (1 - b) * ow ! i ! r ! c"
    using blend_entry [OF s rr c] by simp
qed

section \<open>The fields of the state after a training step\<close>

lemma shapes_sym: "list_all2 same_shape xs ys \<Longrightarrow> list_all2 same_shape ys xs"
  by (simp add: list_all2_conv_all_nth same_shape_def)

lemma shapes_refl [simp]: "list_all2 same_shape xs xs"
  by (simp add: list_all2_conv_all_nth)

lemma online_forward_shapes:
  assumes "keeps_shapes env"
  shows "list_all2 same_shape (fst (snd (online_forward env w_f w_g w_q x))) w_f"
    and "list_all2 same_shape (fst (snd (snd (online_forward env w_f w_g w_q x)))) w_g"
    and "list_all2 same_shape (snd (snd (snd (online_forward env w_f w_g w_q x)))) w_q"
  using assms by (simp_all add: online_forward_def keeps_shapes_def split_def Let_def)

lemma online_pass_shapes:
  assumes k: "keeps_shapes env"
  shows "list_all2 same_shape (fst (snd (online_pass env x1 x2 w_f w_g w_q))) w_f"
    and "list_all2 same_shape (fst (snd (snd (online_pass env x1 x2 w_f w_g w_q)))) w_g"
    and "list_all2 same_shape (snd (snd (snd (online_pass env x1 x2 w_f w_g w_q)))) w_q"
proof -
  let ?a = "online_forward env w_f w_g w_q x1"
  let ?b = "online_forward env (fst (snd ?a)) (fst (snd (snd ?a))) (snd (snd (snd ?a))) x2"
  have eq: "snd (online_pass env x1 x2 w_f w_g w_q) = snd ?b"
    by (simp add: online_pass_def split_def Let_def)
  show "list_all2 same_shape (fst (snd (online_pass env x1 x2 w_f w_g w_q))) w_f"
    unfolding eq
    by (rule shapes_trans [OF online_forward_shapes(1) [OF k] online_forward_shapes(1) [OF k]])
  show "list_all2 same_shape (fst (snd (snd (online_pass env x1 x2 w_f w_g w_q)))) w_g"
    unfolding eq
    by (rule shapes_trans [OF online_forward_shapes(2) [OF k] online_forward_shapes(2) [OF k]])
  show "list_all2 same_shape (snd (snd (snd (online_pass env x1 x2 w_f w_g w_q)))) w_q"
    unfolding eq
    by (rule shapes_trans [OF online_forward_shapes(3) [OF k] online_forward_shapes(3) [OF k]])
qed

lemma target_forward_shapes:
  assumes "keeps_shapes env"
  shows "list_all2 same_shape (fst (snd (target_forward env w_f w_g x))) w_f"
    and "list_all2 same_shape (snd (snd (target_forward env w_f w_g x))) w_g"
  using assms by (simp_all add: target_forward_def keeps_shapes_def split_def Let_def)

lemma target_pass_shapes:
  assumes k: "keeps_shapes env"
  shows "list_all2 same_shape (fst (snd (target_pass env x1 x2 w_f w_g))) w_f"
    and "list_all2 same_shape (snd (snd (target_pass env x1 x2 w_f w_g))) w_g"
proof -
  let ?a = "target_forward env w_f w_g x1"
  let ?b = "target_forward env (fst (snd ?a)) (snd (snd ?a)) x2"
  have eq: "snd (target_pass env x1 x2 w_f w_g) = snd ?b"
    by (simp add: target_pass_def split_def Let_def)
  show "list_all2 same_shape (fst (snd (target_pass env x1 x2 w_f w_g))) w_f"
    unfolding eq
    by (rule shapes_trans [OF target_forward_shapes(1) [OF k] target_forward_shapes(1) [OF k]])
  show "list_all2 same_shape (snd (snd (target_pass env x1 x2 w_f w_g))) w_g"
    unfolding eq
    by (rule shapes_trans [OF target_forward_shapes(2) [OF k] target_forward_shapes(2) [OF k]])
qed

lemma train_step_loss:
  "fst (fst (train_step_pretraining env s x1 x2 Fp)) =
     taped_loss env x1 x2
       (snd (fst (target_pass env x1 x2 (f_target s) (g_target s))) @
        fst (fst (target_pass env x1 x2 (f_target s) (g_target s))))
       (f_online s) (g_online s) (q_online s)"
  by (simp add: train_step_pretraining_def taped_loss_def Let_def split_def)

lemma train_step_F:
  "snd (fst (train_step_pretraining env s x1 x2 Fp)) =
     update_f Fp
       (batch_corr (fst (fst (online_pass env x1 x2 (f_online s) (g_online s) (q_online s))))
                   (fst (snd (fst (online_pass env x1 x2 (f_online s) (g_online s) (q_online s))))))
       lambda_default"
  by (simp add: train_step_pretraining_def Let_def split_def)

lemma train_step_frame:
  "F (snd (train_step_pretraining env s x1 x2 Fp)) = F s"
  "F_eigenval (snd (train_step_pretraining env s x1 x2 Fp)) = F_eigenval s"
  "allignment (snd (train_step_pretraining env s x1 x2 Fp)) = allignment s"
  "wp_eigenval (snd (train_step_pretraining env s x1 x2 Fp)) = wp_eigenval s"
  "data (snd (train_step_pretraining env s x1 x2 Fp)) = data s"
  "losses (snd (train_step_pretraining env s x1 x2 Fp)) = losses s"
  "stdout (snd (train_step_pretraining env s x1 x2 Fp)) = stdout s"
  "files (snd (train_step_pretraining env s x1 x2 Fp)) = files s"
  by (simp_all add: train_step_pretraining_def Let_def split_def)

lemma train_step_targets:
  "f_target (snd (train_step_pretraining env s x1 x2 Fp)) =
     fst (snd (target_pass env x1 x2 (f_target s) (g_target s)))"
  "g_target (snd (train_step_pretraining env s x1 x2 Fp)) =
     snd (snd (target_pass env x1 x2 (f_target s) (g_target s)))"
  by (simp_all add: train_step_pretraining_def Let_def split_def)

lemma train_step_chain:
  fixes env :: "('x, 'o, 'd) env"
  defines "L \<equiv> \<lambda>s x1 x2. taped_loss env x1 x2
                    (snd (fst (target_pass env x1 x2 (f_target s) (g_target s))) @
                     fst (fst (target_pass env x1 x2 (f_target s) (g_target s))))"
  defines "W \<equiv> \<lambda>s x1 x2. snd (online_pass env x1 x2 (f_online s) (g_online s) (q_online s))"
  defines "a1 \<equiv> \<lambda>s x1 x2. apply_gradients env (opt s)
      (tape_gradient env (\<lambda>w. L s x1 x2 w (g_online s) (q_online s)) (f_online s))
      (fst (W s x1 x2))"
  defines "a2 \<equiv> \<lambda>s x1 x2. apply_gradients env (snd (a1 s x1 x2))
      (tape_gradient env (\<lambda>w. L s x1 x2 (f_online s) w (q_online s)) (g_online s))
      (fst (snd (W s x1 x2)))"
  defines "a3 \<equiv> \<lambda>s x1 x2. apply_gradients env (snd (a2 s x1 x2))
      (tape_gradient env (\<lambda>w. L s x1 x2 (f_online s) (g_online s) w) (q_online s))
      (snd (snd (W s x1 x2)))"
  shows "f_online (snd (train_step_pretraining env s x1 x2 Fp)) = fst (a1 s x1 x2)"
    and "g_online (snd (train_step_pretraining env s x1 x2 Fp)) = fst (a2 s x1 x2)"
    and "q_online (snd (train_step_pretraining env s x1 x2 Fp)) = fst (a3 s x1 x2)"
    and "opt (snd (train_step_pretraining env s x1 x2 Fp)) = snd (a3 s x1 x2)"
  by (simp_all add: train_step_pretraining_def Let_def split_def L_def W_def a1_def a2_def a3_def)

lemma train_step_shapes:
  assumes k: "keeps_shapes env"
  shows "list_all2 same_shape (f_online (snd (train_step_pretraining env s x1 x2 Fp))) (f_online s)"
    and "list_all2 same_shape (g_online (snd (train_step_pretraining env s x1 x2 Fp))) (g_online s)"
    and "list_all2 same_shape (f_target (snd (train_step_pretraining env s x1 x2 Fp))) (f_target s)"
    and "list_all2 same_shape (g_target (snd (train_step_pretraining env s x1 x2 Fp))) (g_target s)"
proof -
  have a: "list_all2 same_shape (fst (apply_gradients env n g w)) w" for n g w
    using k by (simp add: keeps_shapes_def)
  show "list_all2 same_shape (f_online (snd (train_step_pretraining env s x1 x2 Fp))) (f_online s)"
    unfolding train_step_chain(1)
    by (rule shapes_trans [OF a online_pass_shapes(1) [OF k]])
  show "list_all2 same_shape (g_online (snd (train_step_pretraining env s x1 x2 Fp))) (g_online s)"
    unfolding train_step_chain(2)
    by (rule shapes_trans [OF a online_pass_shapes(2) [OF k]])
  show "list_all2 same_shape (f_target (snd (train_step_pretraining env s x1 x2 Fp))) (f_target s)"
    unfolding train_step_targets by (rule target_pass_shapes(1) [OF k])
  show "list_all2 same_shape (g_target (snd (train_step_pretraining env s x1 x2 Fp))) (g_target s)"
    unfolding train_step_targets by (rule target_pass_shapes(2) [OF k])
qed

lemma fetch_and_step_frame:
  "F (snd (fetch_and_step env b s)) = F s"
  "F_eigenval (snd (fetch_and_step env b s)) = F_eigenval s"
  "allignment (snd (fetch_and_step env b s)) = allignment s"
  "wp_eigenval (snd (fetch_and_step env b s)) = wp_eigenval s"
  "losses (snd (fetch_and_step env b s)) = losses s"
  "stdout (snd (fetch_and_step env b s)) = stdout s"
  "files (snd (fetch_and_step env b s)) = files s"
  by (simp_all add: fetch_and_step_def split_def Let_def train_step_frame)

lemma fetch_and_step_shapes:
  assumes k: "keeps_shapes env"
  shows "list_all2 same_shape (f_online (snd (fetch_and_step env b s))) (f_online s)"
    and "list_all2 same_shape (g_online (snd (fetch_and_step env b s))) (g_online s)"
    and "list_all2 same_shape (f_target (snd (fetch_and_step env b s))) (f_target s)"
    and "list_all2 same_shape (g_target (snd (fetch_and_step env b s))) (g_target s)"
proof -
  let ?p = "get_batch_pretraining env (data s) b 512"
  note t = train_step_shapes [OF k, of "s\<lparr>data := snd ?p\<rparr>"]
  show "list_all2 same_shape (f_online (snd (fetch_and_step env b s))) (f_online s)"
    using t(1) by (simp add: fetch_and_step_def split_def Let_def)
  show "list_all2 same_shape (g_online (snd (fetch_and_step env b s))) (g_online s)"
    using t(2) by (simp add: fetch_and_step_def split_def Let_def)
  show "list_all2 same_shape (f_target (snd (fetch_and_step env b s))) (f_target s)"
    using t(3) by (simp add: fetch_and_step_def split_def Let_def)
  show "list_all2 same_shape (g_target (snd (fetch_and_step env b s))) (g_target s)"
    using t(4) by (simp add: fetch_and_step_def split_def Let_def)
qed

lemma fetch_and_step_F:
  "snd (fst (fetch_and_step env b s)) = update_f (F s) (batch_snapshot env b s) lambda_default"
  by (simp add: fetch_and_step_def batch_snapshot_def split_def Let_def train_step_F)

lemma fetch_and_step_mirrored:
  assumes k: "keeps_shapes env" and m: "mirrored s"
  shows "mirrored (snd (fetch_and_step env b s))"
proof -
  note t = fetch_and_step_shapes [OF k, of b s]
  have "list_all2 same_shape (f_target (snd (fetch_and_step env b s)))
          (f_online (snd (fetch_and_step env b s)))"
    using m shapes_trans [OF t(3) shapes_trans [OF _ shapes_sym [OF t(1)]]]
    by (simp add: mirrored_def)
  moreover have "list_all2 same_shape (g_target (snd (fetch_and_step env b s)))
          (g_online (snd (fetch_and_step env b s)))"
    using m shapes_trans [OF t(4) shapes_trans [OF _ shapes_sym [OF t(2)]]]
    by (simp add: mirrored_def)
  ultimately show ?thesis by (simp add: mirrored_def)
qed

section \<open>The batch body\<close>

text \<open>The state after the step and the two assignments of lines 125 and 126.\<close>

lemma batch_body_cases:
  fixes env :: "('x, 'o, 'd) env"
  defines "s1 \<equiv> \<lambda>b s. snd (fetch_and_step env b s)"
  defines "s2 \<equiv> \<lambda>b s. (s1 b s)\<lparr>F := Some (snd (fst (fetch_and_step env b s))),
                losses := losses (s1 b s) @ [fst (fst (fetch_and_step env b s))]\<rparr>"
  assumes f: "ema_update beta (f_target (s1 b s)) (f_online (s1 b s)) = Inr ft"
      and g: "ema_update beta (g_target (s1 b s)) (g_online (s1 b s)) = Inr gt"
  shows "batch_body env E bpe e b s =
     Inr (if (b + 1) mod 10 = 0
          then (s2 b s)\<lparr>f_target := ft, g_target := gt,
                 stdout := stdout s @ [Batch_log (e + 1) E (b + 1) bpe (fst (fst (fetch_and_step env b s)))]\<rparr>
          else (s2 b s)\<lparr>f_target := ft, g_target := gt\<rparr>)"
  using f g
  by (simp add: batch_body_def split_def Let_def s1_def s2_def fetch_and_step_frame)

lemma batch_body_mirrored:
  assumes k: "keeps_shapes env" and m: "mirrored s"
  shows "\<exists>ft gt.
     ema_update beta (f_target (snd (fetch_and_step env b s)))
       (f_online (snd (fetch_and_step env b s))) = Inr ft \<and>
     ema_update beta (g_target (snd (fetch_and_step env b s)))
       (g_online (snd (fetch_and_step env b s))) = Inr gt \<and>
     length ft = length (f_target (snd (fetch_and_step env b s))) \<and>
     length gt = length (g_target (snd (fetch_and_step env b s))) \<and>
     list_all2 same_shape ft (f_online (snd (fetch_and_step env b s))) \<and>
     list_all2 same_shape gt (g_online (snd (fetch_and_step env b s)))"
proof -
  let ?s1 = "snd (fetch_and_step env b s)"
  have "mirrored ?s1"
    by (rule fetch_and_step_mirrored [OF k m])
  then have mf: "list_all2 same_shape (f_target ?s1) (f_online ?s1)"
    and mg: "list_all2 same_shape (g_target ?s1) (g_online ?s1)"
    by (simp_all add: mirrored_def)
  show ?thesis
    using ema_update_mirrored [OF mf, of beta] ema_update_mirrored [OF mg, of beta]
    by blast
qed

lemma batch_body_fields:
  assumes f: "ema_update beta (f_target (snd (fetch_and_step env b s)))
                (f_online (snd (fetch_and_step env b s))) = Inr ft"
      and g: "ema_update beta (g_target (snd (fetch_and_step env b s)))
                (g_online (snd (fetch_and_step env b s))) = Inr gt"
  shows "\<exists>s'. batch_body env E bpe e b s = Inr s' \<and>
     f_target s' = ft \<and> g_target s' = gt \<and>
     f_online s' = f_online (snd (fetch_and_step env b s)) \<and>
     g_online s' = g_online (snd (fetch_and_step env b s)) \<and>
     q_online s' = q_online (snd (fetch_and_step env b s)) \<and>
     opt s' = opt (snd (fetch_and_step env b s)) \<and>
     data s' = data (snd (fetch_and_step env b s)) \<and>
     F s' = Some (snd (fst (fetch_and_step env b s))) \<and>
     losses s' = losses s @ [fst (fst (fetch_and_step env b s))] \<and>
     F_eigenval s' = F_eigenval s \<and> allignment s' = allignment s \<and>
     wp_eigenval s' = wp_eigenval s \<and> files s' = files s \<and>
     stdout s' = (if (b + 1) mod 10 = 0
                  then stdout s @ [Batch_log (e + 1) E (b + 1) bpe (fst (fst (fetch_and_step env b s)))]
                  else stdout s)"
  unfolding batch_body_cases [OF f g]
  by (simp add: fetch_and_step_frame)

lemma ema_beta_entries:
  assumes m: "list_all2 same_shape tw ow" and r: "ema_update beta tw ow = Inr tw'"
  shows "\<forall>i<length tw. \<forall>r<length (tw ! i). \<forall>c<length (tw ! i ! r).
           tw' ! i ! r ! c = 0.99 * tw ! i ! r ! c + 0.01 * ow ! i ! r ! c"
  using ema_update_entries [OF m r] by (simp add: beta_def)

lemma batch_body_completes:
  assumes k: "keeps_shapes env" and m: "mirrored s"
  shows "\<exists>s'. batch_body env E bpe e b s = Inr s' \<and> mirrored s' \<and>
     f_online s' = f_online (snd (fetch_and_step env b s)) \<and>
     g_online s' = g_online (snd (fetch_and_step env b s)) \<and>
     q_online s' = q_online (snd (fetch_and_step env b s)) \<and>
     opt s' = opt (snd (fetch_and_step env b s)) \<and>
     data s' = data (snd (fetch_and_step env b s)) \<and>
     F s' = Some (snd (fst (fetch_and_step env b s))) \<and>
     losses s' = losses s @ [fst (fst (fetch_and_step env b s))] \<and>
     F_eigenval s' = F_eigenval s \<and> allignment s' = allignment s \<and>
     wp_eigenval s' = wp_eigenval s \<and> files s' = files s \<and>
     stdout s' = (if (b + 1) mod 10 = 0
                  then stdout s @ [Batch_log (e + 1) E (b + 1) bpe (fst (fst (fetch_and_step env b s)))]
                  else stdout s)"
proof -
  let ?s1 = "snd (fetch_and_step env b s)"
  obtain ft gt where ft: "ema_update beta (f_target ?s1) (f_online ?s1) = Inr ft"
    and gt: "ema_update beta (g_target ?s1) (g_online ?s1) = Inr gt"
    and fts: "list_all2 same_shape ft (f_online ?s1)"
    and gts: "list_all2 same_shape gt (g_online ?s1)"
    using batch_body_mirrored [OF k m, of b] by blast
  obtain s' where r: "batch_body env E bpe e b s = Inr s'"
    and fs: "f_target s' = ft \<and> g_target s' = gt \<and>
     f_online s' = f_online ?s1 \<and> g_online s' = g_online ?s1 \<and>
     q_online s' = q_online ?s1 \<and> opt s' = opt ?s1 \<and> data s' = data ?s1 \<and>
     F s' = Some (snd (fst (fetch_and_step env b s))) \<and>
     losses s' = losses s @ [fst (fst (fetch_and_step env b s))] \<and>
     F_eigenval s' = F_eigenval s \<and> allignment s' = allignment s \<and>
     wp_eigenval s' = wp_eigenval s \<and> files s' = files s \<and>
     stdout s' = (if (b + 1) mod 10 = 0
                  then stdout s @ [Batch_log (e + 1) E (b + 1) bpe (fst (fst (fetch_and_step env b s)))]
                  else stdout s)"
    using batch_body_fields [OF ft gt, of E bpe e] by blast
  have "mirrored s'"
    using fs fts gts by (simp add: mirrored_def)
  then show ?thesis using r fs by blast
qed


lemma reached_simps [simp]: "reached (Inr s) = s" "reached (Inl (e, s)) = s"
  by (simp_all add: reached_def)

lemma batch_body_reached:
  "F (reached (batch_body env E bpe e b s)) = Some (snd (fst (fetch_and_step env b s)))"
  "g_online (reached (batch_body env E bpe e b s)) = g_online (snd (fetch_and_step env b s))"
proof -
  let ?r = "fetch_and_step env b s"
  let ?s2 = "(snd ?r)\<lparr>F := Some (snd (fst ?r)), losses := losses (snd ?r) @ [fst (fst ?r)]\<rparr>"
  have "F (reached (batch_body env E bpe e b s)) = Some (snd (fst ?r)) \<and>
     g_online (reached (batch_body env E bpe e b s)) = g_online (snd ?r)"
  proof (cases "ema_update beta (f_target (snd ?r)) (f_online (snd ?r))")
    case (Inl x)
    then have "batch_body env E bpe e b s = Inl (x, ?s2)"
      by (simp add: batch_body_def split_def Let_def fetch_and_step_frame)
    then show ?thesis by simp
  next
    case ft: (Inr ft)
    show ?thesis
    proof (cases "ema_update beta (g_target (snd ?r)) (g_online (snd ?r))")
      case (Inl x)
      then have "batch_body env E bpe e b s = Inl (x, ?s2\<lparr>f_target := ft\<rparr>)"
        using ft by (simp add: batch_body_def split_def Let_def fetch_and_step_frame)
      then show ?thesis by simp
    next
      case (Inr gt)
      obtain s' where "batch_body env E bpe e b s = Inr s'" "F s' = Some (snd (fst ?r))"
        "g_online s' = g_online (snd ?r)"
        using batch_body_fields [OF ft Inr, of E bpe e] by blast
      then show ?thesis by simp
    qed
  qed
  then show "F (reached (batch_body env E bpe e b s)) = Some (snd (fst (fetch_and_step env b s)))"
    and "g_online (reached (batch_body env E bpe e b s)) = g_online (snd (fetch_and_step env b s))"
    by blast+
qed

section \<open>The small environment, evaluated\<close>

lemma update_keeps_shape:
  "i < length w \<Longrightarrow> same_shape (w[k := map (map f) (w ! k)] ! i) (w ! i)"
  by (cases "k < length w"; cases "i = k"; simp add: same_shape_def)

lemma toy_keeps_shapes: "keeps_shapes toy_env"
  by (simp add: keeps_shapes_def toy_env_def list_all2_conv_all_nth update_keeps_shape)
     (simp add: same_shape_def)

lemma toy_state_fields:
  "f_online toy_state = [[[1, 0], [0, 1]], [[0, 0]]]"
  "g_online toy_state = [[[1, 0], [0, 1]], [[1, 0], [0, 1]]]"
  "q_online toy_state = [[[1, 0], [0, 1]], [[0, 1], [1, 0]]]"
  "f_target toy_state = [[[1, 0], [0, 1]], [[0, 0]]]"
  "g_target toy_state = [[[1, 0], [0, 1]], [[1, 0], [0, 1]]]"
  "opt toy_state = 0" "F toy_state = None" "data toy_state = 512"
  "losses toy_state = []" "stdout toy_state = []" "files toy_state = []"
  "F_eigenval toy_state = []" "allignment toy_state = []" "wp_eigenval toy_state = []"
  by (simp_all add: toy_state_def initial_state_def toy_built_def toy_env_def)

lemma toy_mirrored: "mirrored toy_state"
  by (simp add: mirrored_def toy_state_fields)

lemma matmul_1x2_2x2:
  "matmul [[a, b]] [[c, d], [e, f]] = [[a * c + b * e, a * d + b * f]]"
  by (simp add: matmul_def)

lemma toy_encoder:
  "ResNet18 toy_env [[[k, l], [m, n]], [[u, v]]] [[a, b]] True =
     ([[2 * (a * k + b * m), 2 * (a * l + b * n)]], [[[k, l], [m, n]], [[u + 1, v + 1]]])"
  "ResNet18 toy_env [[[k, l], [m, n]], [[u, v]]] [[a, b]] False =
     ([[a * k + b * m, a * l + b * n]], [[[k, l], [m, n]], [[u, v]]])"
  by (simp_all add: toy_env_def matmul_1x2_2x2 mat_scale_def)

lemma toy_head:
  "ProjectionHead toy_env [[[k, l], [m, n]], [[k', l'], [m', n']]] [[a, b]] t =
     ([[(a * k + b * m) * k' + (a * l + b * n) * m', (a * k + b * m) * l' + (a * l + b * n) * n']],
      [[[k, l], [m, n]], [[k', l'], [m', n']]])"
  by (simp add: toy_env_def matmul_1x2_2x2)

lemma toy_loss: "byol_loss toy_env [[a, b], [c, d]] [[e, f], [g, h]] = - (a * e + b * f + (c * g + d * h))"
  by (simp add: toy_env_def)

lemma toy_batch:
  "get_batch_pretraining toy_env d i n = (([[1, 2]], [[3, 4]]), d)"
  by (simp add: toy_env_def)

lemma toy_optimizer:
  "tape_gradient toy_env L w = [[[L w]]]"
  "apply_gradients toy_env n [[[v]]] w = (map (map (map (\<lambda>x. x - v / 80))) w, Suc n)"
  by (simp_all add: toy_env_def)

lemma toy_batch_corr: "batch_corr [[2, 4]] [[6, 8]] = [[20, 28], [28, 40]]"
  by (simp add: batch_corr_def batch_matmul_def expand_dims_1_def expand_dims_2_def
      reduce_mean0_def matmul_def mat_add_def Let_def)

lemma toy_target_pass:
  "target_pass toy_env [[1, 2]] [[3, 4]] [[[1, 0], [0, 1]], [[0, 0]]]
     [[[1, 0], [0, 1]], [[1, 0], [0, 1]]] =
   (([[2, 4]], [[6, 8]]),
    ([[[1, 0], [0, 1]], [[2, 2]]], [[[1, 0], [0, 1]], [[1, 0], [0, 1]]]))"
  by (simp add: target_pass_def target_forward_def toy_encoder toy_head Let_def)

lemma toy_online_pass:
  "online_pass toy_env [[1, 2]] [[3, 4]] [[[1, 0], [0, 1]], [[0, 0]]]
     [[[1, 0], [0, 1]], [[1, 0], [0, 1]]] [[[1, 0], [0, 1]], [[0, 1], [1, 0]]] =
   (([[2, 4]], [[6, 8]], [[4, 2]], [[8, 6]]),
    ([[[1, 0], [0, 1]], [[2, 2]]], [[[1, 0], [0, 1]], [[1, 0], [0, 1]]],
     [[[1, 0], [0, 1]], [[0, 1], [1, 0]]]))"
  by (simp add: online_pass_def online_forward_def toy_encoder toy_head Let_def)

lemma toy_step:
  "train_step_pretraining toy_env toy_state [[1, 2]] [[3, 4]] None =
     ((- 80, [[20, 28], [28, 40]]),
      toy_state\<lparr>f_target := [[[1, 0], [0, 1]], [[2, 2]]],
        g_target := [[[1, 0], [0, 1]], [[1, 0], [0, 1]]],
        f_online := [[[2, 1], [1, 2]], [[3, 3]]],
        g_online := [[[2, 1], [1, 2]], [[2, 1], [1, 2]]],
        q_online := [[[2, 1], [1, 2]], [[1, 2], [2, 1]]],
        opt := 3\<rparr>)"
proof -
  have l: "taped_loss toy_env [[1, 2]] [[3, 4]] [[6, 8], [2, 4]]
      [[[1, 0], [0, 1]], [[0, 0]]] [[[1, 0], [0, 1]], [[1, 0], [0, 1]]]
      [[[1, 0], [0, 1]], [[0, 1], [1, 0]]] = - 80"
    by (simp add: taped_loss_def toy_online_pass toy_loss Let_def)
  show ?thesis
    by (simp add: train_step_pretraining_def Let_def toy_state_fields toy_target_pass
        toy_online_pass toy_loss l toy_optimizer toy_batch_corr update_f_def numeral_3_eq_3)
qed

lemma toy_fetch:
  "fetch_and_step toy_env b toy_state = train_step_pretraining toy_env toy_state [[1, 2]] [[3, 4]] None"
proof -
  have "toy_state\<lparr>data := data toy_state\<rparr> = toy_state"
    by simp
  then show ?thesis
    by (simp add: fetch_and_step_def toy_batch toy_state_fields(7))
qed


lemma toy_data: "num_train_images toy_env (CIFAR10 toy_env n) = n"
  by (simp add: toy_env_def)

section \<open>The end of an epoch\<close>

lemma save_checkpoint_frame:
  "F (save_checkpoint e s) = F s"
  "F_eigenval (save_checkpoint e s) = F_eigenval s"
  "allignment (save_checkpoint e s) = allignment s"
  "wp_eigenval (save_checkpoint e s) = wp_eigenval s"
  "data (save_checkpoint e s) = data s"
  "f_online (save_checkpoint e s) = f_online s"
  "g_online (save_checkpoint e s) = g_online s"
  "q_online (save_checkpoint e s) = q_online s"
  "f_target (save_checkpoint e s) = f_target s"
  "g_target (save_checkpoint e s) = g_target s"
  "opt (save_checkpoint e s) = opt s"
  "losses (save_checkpoint e s) = losses s"
  by (simp_all add: save_checkpoint_def)

lemma track_alignment_None:
  "F s = None \<Longrightarrow> track_alignment env s = Inl (Eigh_of_None, s)"
  by (simp add: track_alignment_def)

lemma track_alignment_Some:
  assumes "F s = Some A"
  shows "track_alignment env s =
     Inr (s\<lparr>F_eigenval := F_eigenval s @ [fst (eigh env A)],
            wp_eigenval := wp_eigenval s @
              [eigvals_real env (transpose (matmul (fc1_kernel env (q_online s))
                                                   (fc2_kernel env (q_online s))))],
            allignment := allignment s @
              [cosine_sim (snd (eigh env A))
                 (matmul (transpose (matmul (fc1_kernel env (q_online s))
                                            (fc2_kernel env (q_online s))))
                         (snd (eigh env A)))]\<rparr>)"
  using assms by (simp add: track_alignment_def Let_def split_def)

lemma track_alignment_frame:
  assumes "track_alignment env s = Inr s'"
  shows "F s' = F s" "data s' = data s" "f_online s' = f_online s" "g_online s' = g_online s"
    "q_online s' = q_online s" "f_target s' = f_target s" "g_target s' = g_target s"
    "opt s' = opt s" "losses s' = losses s" "stdout s' = stdout s" "files s' = files s"
proof -
  obtain A where A: "F s = Some A"
    using assms by (cases "F s") (simp_all add: track_alignment_None)
  show "F s' = F s" "data s' = data s" "f_online s' = f_online s" "g_online s' = g_online s"
    "q_online s' = q_online s" "f_target s' = f_target s" "g_target s' = g_target s"
    "opt s' = opt s" "losses s' = losses s" "stdout s' = stdout s" "files s' = files s"
    using assms unfolding track_alignment_Some [OF A] by auto
qed

lemma epoch_end_frame:
  assumes "epoch_end env e s = Inr s'"
  shows "F s' = F s" "data s' = data s" "f_online s' = f_online s" "g_online s' = g_online s"
    "q_online s' = q_online s" "f_target s' = f_target s" "g_target s' = g_target s"
    "opt s' = opt s" "losses s' = losses s"
proof -
  have "s' = save_checkpoint e s \<or> track_alignment env (save_checkpoint e s) = Inr s'"
    using assms by (simp add: epoch_end_def Let_def split: if_splits)
  then show "F s' = F s" "data s' = data s" "f_online s' = f_online s" "g_online s' = g_online s"
    "q_online s' = q_online s" "f_target s' = f_target s" "g_target s' = g_target s"
    "opt s' = opt s" "losses s' = losses s"
    using track_alignment_frame [of env "save_checkpoint e s" s']
    by (auto simp add: save_checkpoint_frame)
qed

lemma epoch_end_tracked:
  assumes e: "epoch_id mod 5 = 0" and A: "F s = Some A"
  shows "epoch_end env epoch_id s =
     Inr ((save_checkpoint epoch_id s)
       \<lparr>F_eigenval := F_eigenval s @ [fst (eigh env A)],
        wp_eigenval := wp_eigenval s @
          [eigvals_real env (transpose (matmul (fc1_kernel env (q_online s))
                                               (fc2_kernel env (q_online s))))],
        allignment := allignment s @
          [cosine_sim (snd (eigh env A))
             (matmul (transpose (matmul (fc1_kernel env (q_online s))
                                        (fc2_kernel env (q_online s))))
                     (snd (eigh env A)))]\<rparr>)"
proof -
  have "F (save_checkpoint epoch_id s) = Some A"
    using A by (simp add: save_checkpoint_frame)
  from track_alignment_Some [OF this, of env] e show ?thesis
    by (simp add: epoch_end_def Let_def save_checkpoint_frame)
qed

lemma epoch_end_untracked:
  "epoch_id mod 5 \<noteq> 0 \<Longrightarrow> epoch_end env epoch_id s = Inr (save_checkpoint epoch_id s)"
  by (simp add: epoch_end_def Let_def)

section \<open>Whole runs\<close>

lemma py_range_simps:
  "n \<le> 0 \<Longrightarrow> py_range n = []"
  "py_range 1 = [0]"
  by (simp_all add: py_range_def)

lemma py_range_pos: "1 \<le> n \<Longrightarrow> py_range n = 0 # map (\<lambda>k. k + 1) (py_range (n - 1))"
proof -
  assume n: "1 \<le> n"
  then obtain m where m: "nat n = Suc m"
    by (cases "nat n") auto
  have "[0..<Suc m] = 0 # map Suc [0..<m]"
    by (simp add: upt_conv_Cons map_Suc_upt del: upt_Suc)
  moreover have "nat (n - 1) = m" using m by simp
  ultimately show ?thesis
    by (simp add: py_range_def m o_def del: upt_Suc)
qed

lemma initial_state_fields:
  "F (initial_state env b n) = None"
  "F_eigenval (initial_state env b n) = []"
  "allignment (initial_state env b n) = []"
  "wp_eigenval (initial_state env b n) = []"
  "data (initial_state env b n) = CIFAR10 env n"
  "f_online (initial_state env b n) = built_f_online b"
  "g_online (initial_state env b n) = built_g_online b"
  "q_online (initial_state env b n) = built_q_online b"
  "f_target (initial_state env b n) = built_f_target b"
  "g_target (initial_state env b n) = built_g_target b"
  "opt (initial_state env b n) = built_opt b"
  "losses (initial_state env b n) = []"
  "stdout (initial_state env b n) = []"
  "files (initial_state env b n) = []"
  by (simp_all add: initial_state_def)

lemma first_epoch_without_batches:
  assumes "bpe \<le> 0" and "F s = None"
  shows "epoch_body env epochs bpe 0 s =
     Inl (Eigh_of_None, s\<lparr>data := shuffle_training_data env (data s)\<rparr>)"
proof -
  let ?s0 = "s\<lparr>data := shuffle_training_data env (data s)\<rparr>"
  have "save_checkpoint 0 ?s0 = ?s0"
    by (simp add: save_checkpoint_def)
  moreover have "F ?s0 = None" using assms(2) by simp
  ultimately have "epoch_end env 0 ?s0 = Inl (Eigh_of_None, ?s0)"
    by (simp add: epoch_end_def Let_def track_alignment_None)
  then show ?thesis
    using assms(1) by (simp add: epoch_body_def Let_def py_range_simps)
qed

section \<open>Symmetry of the correlation matrix\<close>

lemma transpose_single: "transpose [v] = map (\<lambda>x. [x]) v"
  by (induction v) simp_all

lemma outer_product:
  "matmul (map (\<lambda>a. [a]) v) [v] = map (\<lambda>a. map (\<lambda>b. a * b) v) v"
  by (simp add: matmul_def transpose_single o_def)

lemma batch_outer:
  "batch_matmul (expand_dims_2 z) (expand_dims_1 z) = map (\<lambda>v. map (\<lambda>a. map (\<lambda>b. a * b) v) v) z"
  by (simp add: batch_matmul_def expand_dims_2_def expand_dims_1_def zip_map_map
      map_zip_map2 zip_same_conv_map outer_product o_def)

lemma sym_outer: "length v = P \<Longrightarrow> sym_mat P (map (\<lambda>a. map (\<lambda>b. a * b) v) v)"
  by (simp add: sym_mat_def list_all_iff mult.commute)

lemma sym_mat_add:
  assumes A: "sym_mat P A" and B: "sym_mat P B"
  shows "sym_mat P (mat_add A B)"
proof -
  have lA: "length A = P" and lB: "length B = P"
    using A B by (simp_all add: sym_mat_def)
  have rA: "\<And>i. i < P \<Longrightarrow> length (A ! i) = P" and rB: "\<And>i. i < P \<Longrightarrow> length (B ! i) = P"
    using A B by (simp_all add: sym_mat_def list_all_length)
  have sA: "\<And>i j. i < P \<Longrightarrow> j < P \<Longrightarrow> A ! i ! j = A ! j ! i"
    and sB: "\<And>i j. i < P \<Longrightarrow> j < P \<Longrightarrow> B ! i ! j = B ! j ! i"
    using A B by (simp_all add: sym_mat_def)
  have l: "length (mat_add A B) = P"
    using lA lB by simp
  have r: "\<And>i. i < P \<Longrightarrow> length (mat_add A B ! i) = P"
    using lA lB rA rB by (simp add: mat_add_row_length)
  have e: "\<And>i j. i < P \<Longrightarrow> j < P \<Longrightarrow> mat_add A B ! i ! j = A ! i ! j + B ! i ! j"
    using lA lB rA rB by (simp add: mat_add_entry)
  show ?thesis
    unfolding sym_mat_def list_all_length
    using l r e sA sB by simp
qed

lemma sym_mat_map:
  assumes A: "sym_mat P A"
  shows "sym_mat P (map (map f) A)"
  using A by (simp add: sym_mat_def list_all_length)

lemma sym_mat_scale: "sym_mat P A \<Longrightarrow> sym_mat P (mat_scale c A)"
  unfolding mat_scale_def by (rule sym_mat_map)

lemma sym_foldl:
  "sym_mat P m \<Longrightarrow> list_all (sym_mat P) rest \<Longrightarrow> sym_mat P (foldl mat_add m rest)"
  by (induction rest arbitrary: m) (simp_all add: sym_mat_add)

lemma sym_reduce_mean0:
  assumes "ms \<noteq> []" and "list_all (sym_mat P) ms"
  shows "sym_mat P (reduce_mean0 ms)"
proof -
  obtain m rest where ms: "ms = m # rest"
    using assms(1) by (cases ms) auto
  then have "sym_mat P (foldl mat_add m rest)"
    using assms(2) by (simp add: sym_foldl)
  then show ?thesis
    unfolding reduce_mean0_def ms by (simp add: sym_mat_map)
qed

lemma sym_batch_corr:
  assumes z1: "batch_of_width P z1" and z2: "batch_of_width P z2"
  shows "sym_mat P (batch_corr z1 z2)"
proof -
  let ?outer = "\<lambda>v::vec. map (\<lambda>a. map (\<lambda>b. a * b) v) v"
  have ne: "map ?outer z1 @ map ?outer z2 \<noteq> []"
    using z1 by (simp add: batch_of_width_def)
  have "list_all (sym_mat P) (map ?outer z1 @ map ?outer z2)"
    using z1 z2 sym_outer [of _ P] by (auto simp add: batch_of_width_def list_all_iff)
  from sym_reduce_mean0 [OF ne this] show ?thesis
    by (simp add: batch_corr_def batch_outer Let_def)
qed

lemma sym_update_f:
  assumes "case Fp of None \<Rightarrow> True | Some A \<Rightarrow> sym_mat P A" and "sym_mat P corr"
  shows "sym_mat P (update_f Fp corr c)"
  using assms by (cases Fp) (simp_all add: update_f_def sym_mat_add sym_mat_scale)

section \<open>The correlation matrix over a run\<close>

lemma sym_snapshot:
  assumes p: "projects_to env P g0" and g: "list_all2 same_shape (g_online s) g0"
    and k: "keeps_shapes env"
  shows "sym_mat P (batch_snapshot env b s)"
proof -
  let ?v = "fst (get_batch_pretraining env (data s) b 512)"
  let ?a = "online_forward env (f_online s) (g_online s) (q_online s) (fst ?v)"
  let ?b = "online_forward env (fst (snd ?a)) (fst (snd (snd ?a))) (snd (snd (snd ?a))) (snd ?v)"
  have g1: "list_all2 same_shape (fst (snd (snd ?a))) g0"
    by (rule shapes_trans [OF online_forward_shapes(2) [OF k] g])
  have z1: "batch_of_width P (fst (fst ?a))"
    using p g unfolding projects_to_def by blast
  have z2: "batch_of_width P (fst (fst ?b))"
    using p g1 unfolding projects_to_def by blast
  have "batch_snapshot env b s = batch_corr (fst (fst ?a)) (fst (fst ?b))"
    by (simp add: batch_snapshot_def online_pass_def split_def Let_def)
  then show ?thesis
    using sym_batch_corr [OF z1 z2] by simp
qed

text \<open>
  What a run keeps true of the state: \<open>F\<close> is \<open>None\<close> or symmetric, and the online
  projector has the shapes it was built with.
\<close>

lemma batch_body_symmetric:
  assumes p: "projects_to env P g0" and k: "keeps_shapes env"
    and g: "list_all2 same_shape (g_online s) g0" and f: "F_symmetric P s"
  shows "F_symmetric P (reached (batch_body env E bpe e b s))"
    and "list_all2 same_shape (g_online (reached (batch_body env E bpe e b s))) g0"
proof -
  have "sym_mat P (update_f (F s) (batch_snapshot env b s) lambda_default)"
    using f sym_snapshot [OF p g k, of b]
    by (intro sym_update_f) (simp_all add: F_symmetric_def)
  then show "F_symmetric P (reached (batch_body env E bpe e b s))"
    by (simp add: F_symmetric_def batch_body_reached fetch_and_step_F)
  show "list_all2 same_shape (g_online (reached (batch_body env E bpe e b s))) g0"
    unfolding batch_body_reached
    by (rule shapes_trans [OF fetch_and_step_shapes(2) [OF k] g])
qed

lemma batch_loop_symmetric:
  assumes p: "projects_to env P g0" and k: "keeps_shapes env"
  shows "list_all2 same_shape (g_online s) g0 \<Longrightarrow> F_symmetric P s \<Longrightarrow>
     F_symmetric P (reached (batch_loop env E bpe e bs s)) \<and>
     list_all2 same_shape (g_online (reached (batch_loop env E bpe e bs s))) g0"
proof (induction bs arbitrary: s)
  case Nil
  then show ?case by simp
next
  case (Cons b bs)
  note step = batch_body_symmetric [OF p k Cons.prems, of E bpe e b]
  show ?case
  proof (cases "batch_body env E bpe e b s")
    case (Inl x)
    then show ?thesis using step by simp
  next
    case (Inr s')
    then have "F_symmetric P s'" and "list_all2 same_shape (g_online s') g0"
      using step by simp_all
    then show ?thesis
      using Cons.IH [of s'] Inr by simp
  qed
qed

lemma epoch_end_reached:
  "F (reached (epoch_end env e s)) = F s"
  "g_online (reached (epoch_end env e s)) = g_online s"
proof -
  have "F (reached (epoch_end env e s)) = F s \<and> g_online (reached (epoch_end env e s)) = g_online s"
  proof (cases "epoch_end env e s")
    case (Inl x)
    then have "x = (Eigh_of_None, save_checkpoint e s)"
      by (cases "F (save_checkpoint e s)")
         (auto simp add: epoch_end_def Let_def track_alignment_None track_alignment_Some
           split: if_splits)
    then show ?thesis using Inl by (simp add: save_checkpoint_frame)
  next
    case (Inr s')
    then show ?thesis using epoch_end_frame(1,4) [OF Inr] by simp
  qed
  then show "F (reached (epoch_end env e s)) = F s"
    and "g_online (reached (epoch_end env e s)) = g_online s"
    by blast+
qed

lemma epoch_body_reached:
  "F (reached (epoch_body env E bpe e s)) =
     F (reached (batch_loop env E bpe e (py_range bpe)
                   (s\<lparr>data := shuffle_training_data env (data s)\<rparr>)))"
  "g_online (reached (epoch_body env E bpe e s)) =
     g_online (reached (batch_loop env E bpe e (py_range bpe)
                   (s\<lparr>data := shuffle_training_data env (data s)\<rparr>)))"
  by (cases "batch_loop env E bpe e (py_range bpe) (s\<lparr>data := shuffle_training_data env (data s)\<rparr>)";
      auto simp add: epoch_body_def Let_def epoch_end_reached)+

lemma epoch_body_symmetric:
  assumes p: "projects_to env P g0" and k: "keeps_shapes env"
    and g: "list_all2 same_shape (g_online s) g0" and f: "F_symmetric P s"
  shows "F_symmetric P (reached (epoch_body env E bpe e s)) \<and>
     list_all2 same_shape (g_online (reached (epoch_body env E bpe e s))) g0"
proof -
  let ?s0 = "s\<lparr>data := shuffle_training_data env (data s)\<rparr>"
  have "F_symmetric P ?s0" and "list_all2 same_shape (g_online ?s0) g0"
    using f g by (simp_all add: F_symmetric_def)
  from batch_loop_symmetric [OF p k this(2) this(1), of E bpe e "py_range bpe"]
  show ?thesis
    by (simp add: F_symmetric_def epoch_body_reached)
qed

lemma epoch_loop_symmetric:
  assumes p: "projects_to env P g0" and k: "keeps_shapes env"
  shows "list_all2 same_shape (g_online s) g0 \<Longrightarrow> F_symmetric P s \<Longrightarrow>
     F_symmetric P (reached (epoch_loop env E bpe es s))"
proof (induction es arbitrary: s)
  case Nil
  then show ?case by simp
next
  case (Cons e es)
  note step = epoch_body_symmetric [OF p k Cons.prems, of E bpe e]
  show ?case
  proof (cases "epoch_body env E bpe e s")
    case (Inl x)
    then show ?thesis using step by simp
  next
    case (Inr s')
    then have "list_all2 same_shape (g_online s') g0" and "F_symmetric P s'"
      using step by simp_all
    then show ?thesis
      using Cons.IH [of s'] Inr by simp
  qed
qed

lemma main_symmetric:
  assumes p: "projects_to env P (built_g_online b)" and k: "keeps_shapes env"
  shows "case main env b epochs n of
           Inl (e, s) \<Rightarrow> F_symmetric P s
         | Inr (logs, s) \<Rightarrow> F_symmetric P s"
proof -
  let ?s0 = "initial_state env b n"
  let ?r = "epoch_loop env epochs (num_train_images env (data ?s0) div 512) (py_range epochs) ?s0"
  have "F_symmetric P ?s0" and "list_all2 same_shape (g_online ?s0) (built_g_online b)"
    by (simp_all add: F_symmetric_def initial_state_fields)
  from epoch_loop_symmetric [OF p k this(2) this(1)] have "F_symmetric P (reached ?r)" .
  then show ?thesis
    by (cases ?r) (auto simp add: main_def Let_def F_symmetric_def)
qed

section \<open>Runs that complete\<close>

lemma epoch_end_completes:
  assumes "F s \<noteq> None"
  shows "\<exists>s'. epoch_end env e s = Inr s' \<and> F s' = F s \<and> mirrored s' = mirrored s \<and>
     f_online s' = f_online s \<and> g_online s' = g_online s \<and> q_online s' = q_online s \<and>
     data s' = data s"
proof -
  obtain A where A: "F s = Some A"
    using assms by auto
  have "\<exists>s'. epoch_end env e s = Inr s'"
    using epoch_end_tracked [OF _ A, of e env] epoch_end_untracked [of e env s]
    by (cases "e mod 5 = 0") auto
  then obtain s' where r: "epoch_end env e s = Inr s'" ..
  note f = epoch_end_frame [OF r]
  have "mirrored s' = mirrored s"
    by (simp add: mirrored_def f)
  then show ?thesis using r f by blast
qed

lemma batch_loop_completes:
  assumes k: "keeps_shapes env"
  shows "mirrored s \<Longrightarrow>
     \<exists>s'. batch_loop env E bpe e bs s = Inr s' \<and> mirrored s' \<and> (bs \<noteq> [] \<longrightarrow> F s' \<noteq> None)"
proof (induction bs arbitrary: s)
  case Nil
  then show ?case by simp
next
  case (Cons b bs)
  obtain s1 where b: "batch_body env E bpe e b s = Inr s1" and m1: "mirrored s1"
    and F1: "F s1 = Some (snd (fst (fetch_and_step env b s)))"
    using batch_body_completes [OF k Cons.prems, of E bpe e b] by blast
  obtain s' where l: "batch_loop env E bpe e bs s1 = Inr s'" and m': "mirrored s'"
    and F': "bs \<noteq> [] \<longrightarrow> F s' \<noteq> None"
    using Cons.IH [OF m1] by blast
  have "F s' \<noteq> None"
  proof (cases bs)
    case Nil
    then show ?thesis using l F1 by simp
  next
    case (Cons c cs)
    then show ?thesis using F' by simp
  qed
  then show ?case using b l m' by simp
qed

lemma epoch_body_completes:
  assumes k: "keeps_shapes env" and m: "mirrored s" and b: "1 \<le> bpe"
  shows "\<exists>s'. epoch_body env E bpe e s = Inr s' \<and> mirrored s' \<and> F s' \<noteq> None"
proof -
  let ?s0 = "s\<lparr>data := shuffle_training_data env (data s)\<rparr>"
  have "mirrored ?s0" using m by (simp add: mirrored_def)
  moreover have "py_range bpe \<noteq> []"
    using py_range_pos [OF b] by simp
  ultimately obtain s1 where l: "batch_loop env E bpe e (py_range bpe) ?s0 = Inr s1"
    and m1: "mirrored s1" and F1: "F s1 \<noteq> None"
    using batch_loop_completes [OF k, of ?s0 E bpe e "py_range bpe"] by blast
  obtain s' where "epoch_end env e s1 = Inr s'" "F s' = F s1" "mirrored s' = mirrored s1"
    using epoch_end_completes [OF F1, of env e] by blast
  then show ?thesis
    using l m1 F1 by (simp add: epoch_body_def Let_def)
qed

lemma epoch_loop_completes:
  assumes k: "keeps_shapes env" and b: "1 \<le> bpe"
  shows "mirrored s \<Longrightarrow>
     \<exists>s'. epoch_loop env E bpe es s = Inr s' \<and> mirrored s' \<and> (es \<noteq> [] \<longrightarrow> F s' \<noteq> None)"
proof (induction es arbitrary: s)
  case Nil
  then show ?case by simp
next
  case (Cons e es)
  obtain s1 where b1: "epoch_body env E bpe e s = Inr s1" and m1: "mirrored s1"
    and F1: "F s1 \<noteq> None"
    using epoch_body_completes [OF k Cons.prems b, of E e] by blast
  obtain s' where l: "epoch_loop env E bpe es s1 = Inr s'" and m': "mirrored s'"
    and F': "es \<noteq> [] \<longrightarrow> F s' \<noteq> None"
    using Cons.IH [OF m1] by blast
  have "F s' \<noteq> None"
  proof (cases es)
    case Nil
    then show ?thesis using l F1 by simp
  next
    case (Cons c cs)
    then show ?thesis using F' by simp
  qed
  then show ?case using b1 l m' by simp
qed

lemma epoch_loop_append:
  "epoch_loop env E bpe (es @ es') s =
     (case epoch_loop env E bpe es s of
        Inl x \<Rightarrow> Inl x
      | Inr s1 \<Rightarrow> epoch_loop env E bpe es' s1)"
  by (induction es arbitrary: s) (simp_all split: sum.splits)

lemma py_range_snoc: "0 \<le> k \<Longrightarrow> py_range (k + 1) = py_range k @ [k]"
  by (simp add: py_range_def nat_add_distrib)

lemma one_batch_epoch_F:
  "F (reached (epoch_body env E 1 e s)) =
     Some (update_f (F s)
       (batch_snapshot env 0 (s\<lparr>data := shuffle_training_data env (data s)\<rparr>))
       lambda_default)"
proof -
  let ?s0 = "s\<lparr>data := shuffle_training_data env (data s)\<rparr>"
  have "batch_loop env E 1 e (py_range 1) ?s0 =
      (case batch_body env E 1 e 0 ?s0 of Inl x \<Rightarrow> Inl x | Inr s' \<Rightarrow> Inr s')"
    by (simp add: py_range_simps split: sum.splits)
  then have "reached (batch_loop env E 1 e (py_range 1) ?s0) = reached (batch_body env E 1 e 0 ?s0)"
    by (cases "batch_body env E 1 e 0 ?s0") simp_all
  then show ?thesis
    by (simp add: epoch_body_reached batch_body_reached fetch_and_step_F)
qed

lemma blend_with_previous:
  "update_f (Some A) corr lambda_default = mat_add (mat_scale 0.8 A) (mat_scale 0.2 corr)"
  by (simp add: update_f_def lambda_default_def)

lemma run_blends_across_epochs:
  assumes k: "keeps_shapes env"
    and mf: "list_all2 same_shape (built_f_target b) (built_f_online b)"
    and mg: "list_all2 same_shape (built_g_target b) (built_g_online b)"
    and n: "num_train_images env (CIFAR10 env num_samples) div 512 = 1"
    and e: "1 \<le> epochs"
  shows "\<exists>s1 A logs s.
     epoch_loop env (epochs + 1) 1 (py_range epochs) (initial_state env b num_samples) = Inr s1 \<and>
     F s1 = Some A \<and>
     main env b (epochs + 1) num_samples = Inr (logs, s) \<and>
     F s = Some (mat_add (mat_scale 0.8 A)
                  (mat_scale 0.2
                     (batch_snapshot env 0 (s1\<lparr>data := shuffle_training_data env (data s1)\<rparr>))))"
proof -
  let ?s0 = "initial_state env b num_samples"
  have m0: "mirrored ?s0"
    using mf mg by (simp add: mirrored_def initial_state_fields)
  have ne: "py_range epochs \<noteq> []"
    using py_range_pos [OF e] by simp
  obtain s1 where l1: "epoch_loop env (epochs + 1) 1 (py_range epochs) ?s0 = Inr s1"
    and m1: "mirrored s1" and F1: "F s1 \<noteq> None"
    using epoch_loop_completes [OF k _ m0, of 1 "epochs + 1" "py_range epochs"] ne by auto
  obtain A where A: "F s1 = Some A"
    using F1 by auto
  obtain s2 where l2: "epoch_body env (epochs + 1) 1 epochs s1 = Inr s2"
    using epoch_body_completes [OF k m1, of 1 "epochs + 1" epochs] by auto
  have "F s2 = Some (update_f (F s1)
       (batch_snapshot env 0 (s1\<lparr>data := shuffle_training_data env (data s1)\<rparr>))
       lambda_default)"
    using one_batch_epoch_F [of env "epochs + 1" epochs s1] l2 by simp
  then have F2: "F s2 = Some (mat_add (mat_scale 0.8 A)
                  (mat_scale 0.2
                     (batch_snapshot env 0 (s1\<lparr>data := shuffle_training_data env (data s1)\<rparr>))))"
    by (simp add: A blend_with_previous)
  have "py_range (epochs + 1) = py_range epochs @ [epochs]"
    using e by (simp add: py_range_snoc)
  then have "epoch_loop env (epochs + 1) 1 (py_range (epochs + 1)) ?s0 = Inr s2"
    using l1 l2 by (simp add: epoch_loop_append)
  then have "main env b (epochs + 1) num_samples =
      Inr ((F_eigenval s2, allignment s2, wp_eigenval s2),
           s2\<lparr>files := files s2 @ [(Losses_txt, Loss_lines (losses s2))]\<rparr>)"
    using n by (simp add: main_def Let_def initial_state_fields)
  then show ?thesis
    using l1 A F2 by simp
qed

section \<open>The cosine loss\<close>

lemma sum_list_scaled:
  "sum_list (map2 (*) (map (\<lambda>x. x / a) u) (map (\<lambda>x. x / b) v)) =
     sum_list (map2 (*) u v) / (a * b :: real)"
proof (induction u arbitrary: v)
  case Nil
  then show ?case by simp
next
  case (Cons x u)
  then show ?case
    by (cases v) (simp_all add: add_divide_distrib)
qed

lemma cosine_loss_negates:
  assumes "epsilon \<le> sum_list (map (\<lambda>y. y * y) u)" and "epsilon \<le> sum_list (map (\<lambda>y. y * y) v)"
  shows "cosine_loss_column u v = - cosine_similarity u v"
  using assms
  by (simp add: cosine_loss_column_def cosine_similarity_def l2_normalize_def sum_list_scaled
      max_def)

section \<open>The small environment over a run\<close>

lemma shape_2x2:
  assumes "same_shape K [[p, q], [r, t]]"
  shows "\<exists>a b c d. K = [[a, b], [c, d]]"
proof -
  have "map length K = [2, 2]"
    using assms by (simp add: same_shape_def)
  then obtain r1 r2 where K: "K = [r1, r2]" and "length r1 = 2" and "length r2 = 2"
    by (auto simp add: map_eq_Cons_conv)
  then obtain a b c d where "r1 = [a, b]" and "r2 = [c, d]"
    by (auto simp add: length_Suc_conv numeral_2_eq_2)
  then show ?thesis using K by blast
qed

lemma toy_projects: "projects_to toy_env 2 [[[1, 0], [0, 1]], [[1, 0], [0, 1]]]"
  unfolding projects_to_def
proof (intro allI impI)
  fix dp :: int and batch_id :: int and w_f w_g w_q :: weights
  assume "list_all2 same_shape w_g [[[1, 0], [0, 1]], [[1, 0], [0, 1]]]"
  then obtain K1 K2 where w: "w_g = [K1, K2]" and "same_shape K2 [[1, 0], [0, 1]]"
    by (auto simp add: list_all2_Cons2)
  then obtain a b c d where K2: "K2 = [[a, b], [c, d]]"
    using shape_2x2 by blast
  have "batch_of_width 2 (fst (fst (online_forward toy_env w_f w_g w_q [[u, v]])))" for u v
    by (simp add: online_forward_def toy_env_def split_def Let_def w K2 batch_of_width_def
        matmul_def mat_scale_def)
  then show "batch_of_width 2 (fst (fst (online_forward toy_env w_f w_g w_q
          (fst (fst (get_batch_pretraining toy_env dp batch_id 512)))))) \<and>
        batch_of_width 2 (fst (fst (online_forward toy_env w_f w_g w_q
          (snd (fst (get_batch_pretraining toy_env dp batch_id 512))))))"
    by (simp add: toy_batch)
qed

lemma toy_built_shapes:
  "list_all2 same_shape (built_f_target toy_built) (built_f_online toy_built)"
  "list_all2 same_shape (built_g_target toy_built) (built_g_online toy_built)"
  "built_g_online toy_built = [[[1, 0], [0, 1]], [[1, 0], [0, 1]]]"
  by (simp_all add: toy_built_def)

lemma toy_unit_columns:
  "cosine_loss_column [1, 0] [1, 0] = - 1" "cosine_loss_column [0, 1] [0, 1] = - 1"
  "cosine_similarity [1, 0] [1, 0] = 1" "cosine_similarity [0, 1] [0, 1] = 1"
  by (simp_all add: cosine_loss_column_def cosine_similarity_def l2_normalize_def epsilon_def)

lemma toy_tracker_parts:
  "eigh toy_env [[2, 0], [0, 3]] = ([2, 3], [[1, 0], [0, 1]])"
  "fc1_kernel toy_env [[[1, 0], [0, 1]], [[1, 0], [0, 1]]] = [[1, 0], [0, 1]]"
  "fc2_kernel toy_env [[[1, 0], [0, 1]], [[1, 0], [0, 1]]] = [[1, 0], [0, 1]]"
  "transpose (matmul [[1, 0], [0, 1]] [[1, 0], [0, 1::real]]) = [[1, 0], [0, 1]]"
  "eigvals_real toy_env [[1, 0], [0, 1]] = [1, 1]"
  "matmul [[1, 0], [0, 1]] [[1, 0], [0, 1::real]] = [[1, 0], [0, 1]]"
  "cosine_sim [[1, 0], [0, 1]] [[1, 0], [0, 1]] = [- 1, - 1]"
  by (simp_all add: toy_env_def matmul_def cosine_sim_def toy_unit_columns)

lemma toy_second_pass:
  "online_pass toy_env [[1, 2]] [[3, 4]] [[[2, 1], [1, 2]], [[3, 3]]]
     [[[2, 1], [1, 2]], [[2, 1], [1, 2]]] w_q =
   (([[80, 82]], [[188, 190]],
     fst (ProjectionHead toy_env w_q [[80, 82]] True),
     fst (ProjectionHead toy_env w_q [[188, 190]] True)),
    ([[[2, 1], [1, 2]], [[5, 5]]], [[[2, 1], [1, 2]], [[2, 1], [1, 2]]], w_q))"
proof -
  have "snd (ProjectionHead toy_env w h t) = w" for w h t
    by (simp add: toy_env_def)
  then show ?thesis
    by (simp add: online_pass_def online_forward_def toy_encoder toy_head Let_def split_def)
qed

lemma toy_second_corr: "batch_corr [[80, 82]] [[188, 190]] = [[20872, 21140], [21140, 21412]]"
  by (simp add: batch_corr_def batch_outer reduce_mean0_def mat_add_def Let_def)

section \<open>One epoch of one batch\<close>

lemma single_epoch_single_batch:
  assumes k: "keeps_shapes env" and m: "mirrored s"
  shows "\<exists>s'. epoch_body env E 1 0 s = Inr s' \<and>
     F s' = Some (snd (fst (fetch_and_step env 0 (s\<lparr>data := shuffle_training_data env (data s)\<rparr>)))) \<and>
     losses s' = losses s @ [fst (fst (fetch_and_step env 0 (s\<lparr>data := shuffle_training_data env (data s)\<rparr>)))] \<and>
     stdout s' = stdout s \<and> files s' = files s \<and>
     length (F_eigenval s') = Suc (length (F_eigenval s)) \<and>
     length (allignment s') = Suc (length (allignment s)) \<and>
     length (wp_eigenval s') = Suc (length (wp_eigenval s)) \<and>
     f_online s' = f_online (snd (fetch_and_step env 0 (s\<lparr>data := shuffle_training_data env (data s)\<rparr>))) \<and>
     g_online s' = g_online (snd (fetch_and_step env 0 (s\<lparr>data := shuffle_training_data env (data s)\<rparr>))) \<and>
     q_online s' = q_online (snd (fetch_and_step env 0 (s\<lparr>data := shuffle_training_data env (data s)\<rparr>))) \<and>
     data s' = data (snd (fetch_and_step env 0 (s\<lparr>data := shuffle_training_data env (data s)\<rparr>)))"
proof -
  let ?s0 = "s\<lparr>data := shuffle_training_data env (data s)\<rparr>"
  have m0: "mirrored ?s0" using m by (simp add: mirrored_def)
  obtain s1 where b: "batch_body env E 1 0 0 ?s0 = Inr s1"
    and F1: "F s1 = Some (snd (fst (fetch_and_step env 0 ?s0)))"
    and l1: "losses s1 = losses ?s0 @ [fst (fst (fetch_and_step env 0 ?s0))]"
    and o1: "stdout s1 = (if ((0::int) + 1) mod 10 = 0
                  then stdout ?s0 @ [Batch_log (0 + 1) E (0 + 1) 1 (fst (fst (fetch_and_step env 0 ?s0)))]
                  else stdout ?s0)"
    and f1: "files s1 = files ?s0"
    and e1: "F_eigenval s1 = F_eigenval ?s0" "allignment s1 = allignment ?s0"
      "wp_eigenval s1 = wp_eigenval ?s0"
    and w1: "f_online s1 = f_online (snd (fetch_and_step env 0 ?s0))"
      "g_online s1 = g_online (snd (fetch_and_step env 0 ?s0))"
      "q_online s1 = q_online (snd (fetch_and_step env 0 ?s0))"
      "data s1 = data (snd (fetch_and_step env 0 ?s0))"
    using batch_body_completes [OF k m0, of E 1 0 0] by blast
  have loop: "batch_loop env E 1 0 (py_range 1) ?s0 = Inr s1"
    using b by (simp add: py_range_simps)
  have c: "save_checkpoint 0 s1 = s1"
    by (simp add: save_checkpoint_def)
  note t = epoch_end_tracked [of 0 s1 _ env, OF _ F1]
  have "epoch_body env E 1 0 s = epoch_end env 0 s1"
    using loop by (simp add: epoch_body_def Let_def)
  then show ?thesis
    using t by (simp add: c F1 l1 o1 f1 e1 w1)
qed

lemma toy_first_epoch:
  "\<exists>s1. epoch_body toy_env E 1 0 toy_state = Inr s1 \<and>
     F s1 = Some [[20, 28], [28, 40]] \<and>
     f_online s1 = [[[2, 1], [1, 2]], [[3, 3]]] \<and>
     g_online s1 = [[[2, 1], [1, 2]], [[2, 1], [1, 2]]] \<and>
     data s1 = 512"
proof -
  have "toy_state\<lparr>data := shuffle_training_data toy_env (data toy_state)\<rparr> = toy_state"
    by (simp add: toy_env_def)
  then show ?thesis
    using single_epoch_single_batch [OF toy_keeps_shapes toy_mirrored, of E]
    by (auto simp add: toy_fetch toy_step toy_state_fields)
qed

section \<open>The moving average of the target networks\<close>

text \<open>
  C2. After every training step the loop blends the target encoder and the target
  projector, and only these, towards the online networks: whenever target and online
  weight lists mirror each other and the calls of the environment keep the shapes of
  the variables, the body of the batch loop completes, the networks still mirror each
  other, and every entry of every weight tensor of the target encoder and of the target
  projector is \<open>0.99\<close> times its value when the step ended plus \<open>0.01\<close> times the entry
  at the same position of the online network after the step. The blending leaves the
  three online networks, the predictor among them, and the optimizer as the step left
  them.
\<close>

theorem target_ema_after_step:
  assumes k: "keeps_shapes env" and m: "mirrored s"
  shows "\<exists>s'. batch_body env epochs batches_per_epoch epoch_id batch_id s = Inr s' \<and>
     mirrored s' \<and>
     length (f_target s') = length (f_target s) \<and>
     length (g_target s') = length (g_target s) \<and>
     (let old = snd (fetch_and_step env batch_id s)
      in (\<forall>i<length (f_target old). \<forall>r<length (f_target old ! i).
            \<forall>c<length (f_target old ! i ! r).
            f_target s' ! i ! r ! c =
              0.99 * f_target old ! i ! r ! c + 0.01 * f_online s' ! i ! r ! c) \<and>
         (\<forall>i<length (g_target old). \<forall>r<length (g_target old ! i).
            \<forall>c<length (g_target old ! i ! r).
            g_target s' ! i ! r ! c =
              0.99 * g_target old ! i ! r ! c + 0.01 * g_online s' ! i ! r ! c) \<and>
         f_online s' = f_online old \<and> g_online s' = g_online old \<and>
         q_online s' = q_online old \<and> opt s' = opt old)"
proof -
  let ?s1 = "snd (fetch_and_step env batch_id s)"
  have m1: "mirrored ?s1"
    by (rule fetch_and_step_mirrored [OF k m])
  then have mf: "list_all2 same_shape (f_target ?s1) (f_online ?s1)"
    and mg: "list_all2 same_shape (g_target ?s1) (g_online ?s1)"
    by (simp_all add: mirrored_def)
  obtain ft gt where ft: "ema_update beta (f_target ?s1) (f_online ?s1) = Inr ft"
    and gt: "ema_update beta (g_target ?s1) (g_online ?s1) = Inr gt"
    and ftl: "length ft = length (f_target ?s1)" and gtl: "length gt = length (g_target ?s1)"
    and fts: "list_all2 same_shape ft (f_online ?s1)"
    and gts: "list_all2 same_shape gt (g_online ?s1)"
    using batch_body_mirrored [OF k m, of batch_id] by blast
  obtain s' where r: "batch_body env epochs batches_per_epoch epoch_id batch_id s = Inr s'"
    and tf: "f_target s' = ft" and tg: "g_target s' = gt"
    and onf: "f_online s' = f_online ?s1" and ong: "g_online s' = g_online ?s1"
    and onq: "q_online s' = q_online ?s1" and oo: "opt s' = opt ?s1"
    using batch_body_fields [OF ft gt, of epochs batches_per_epoch epoch_id] by blast
  have fe: "\<forall>i<length (f_target ?s1). \<forall>r<length (f_target ?s1 ! i).
        \<forall>c<length (f_target ?s1 ! i ! r).
        f_target s' ! i ! r ! c =
          0.99 * f_target ?s1 ! i ! r ! c + 0.01 * f_online s' ! i ! r ! c"
    using ema_beta_entries [OF mf ft] unfolding tf onf .
  have ge: "\<forall>i<length (g_target ?s1). \<forall>r<length (g_target ?s1 ! i).
        \<forall>c<length (g_target ?s1 ! i ! r).
        g_target s' ! i ! r ! c =
          0.99 * g_target ?s1 ! i ! r ! c + 0.01 * g_online s' ! i ! r ! c"
    using ema_beta_entries [OF mg gt] unfolding tg ong .
  have mi: "mirrored s'"
    unfolding mirrored_def tf tg onf ong using fts gts by blast
  have "length (f_target ?s1) = length (f_target s)" "length (g_target ?s1) = length (g_target s)"
    using fetch_and_step_shapes(3,4) [OF k, of batch_id s] by (simp_all add: list_all2_lengthD)
  then have l: "length (f_target s') = length (f_target s)"
    "length (g_target s') = length (g_target s)"
    unfolding tf tg using ftl gtl by simp_all
  show ?thesis
    unfolding Let_def using r mi l fe ge onf ong onq oo by blast
qed

theorem target_ema_after_step_witness:
  "\<exists>s'. batch_body toy_env 1 1 0 0 toy_state = Inr s' \<and>
        f_online s' = [[[2, 1], [1, 2]], [[3, 3]]] \<and>
        f_target s' ! 0 ! 0 ! 0 = 0.99 * 1 + 0.01 * 2 \<and>
        f_target s' ! 1 ! 0 ! 0 = 0.99 * 2 + 0.01 * 3 \<and>
        g_target s' ! 1 ! 0 ! 1 = 0.99 * 0 + 0.01 * 1"
proof -
  let ?old = "snd (fetch_and_step toy_env 0 toy_state)"
  have old: "f_target ?old = [[[1, 0], [0, 1]], [[2, 2]]]"
    "g_target ?old = [[[1, 0], [0, 1]], [[1, 0], [0, 1]]]"
    "f_online ?old = [[[2, 1], [1, 2]], [[3, 3]]]"
    "g_online ?old = [[[2, 1], [1, 2]], [[2, 1], [1, 2]]]"
    by (simp_all add: toy_fetch toy_step)
  obtain s' where r: "batch_body toy_env 1 1 0 0 toy_state = Inr s'"
    and f: "\<forall>i<length (f_target ?old). \<forall>r<length (f_target ?old ! i).
        \<forall>c<length (f_target ?old ! i ! r).
        f_target s' ! i ! r ! c =
          0.99 * f_target ?old ! i ! r ! c + 0.01 * f_online s' ! i ! r ! c"
    and g: "\<forall>i<length (g_target ?old). \<forall>r<length (g_target ?old ! i).
        \<forall>c<length (g_target ?old ! i ! r).
        g_target s' ! i ! r ! c =
          0.99 * g_target ?old ! i ! r ! c + 0.01 * g_online s' ! i ! r ! c"
    and onf: "f_online s' = f_online ?old"
    and ong: "g_online s' = g_online ?old"
    using target_ema_after_step [OF toy_keeps_shapes toy_mirrored, of 1 1 0 0]
    unfolding Let_def by blast
  have a: "f_target s' ! 0 ! 0 ! 0 = 0.99 * 1 + 0.01 * 2"
    using f [rule_format, of 0 0 0] by (simp add: old onf)
  have b: "f_target s' ! 1 ! 0 ! 0 = 0.99 * 2 + 0.01 * 3"
    using f [rule_format, of 1 0 0] by (simp add: old onf)
  have c: "g_target s' ! 1 ! 0 ! 1 = 0.99 * 0 + 0.01 * 1"
    using g [rule_format, of 1 0 1] by (simp add: old ong)
  show ?thesis using r onf old(3) a b c by auto
qed

section \<open>The optimizer calls of a step\<close>

text \<open>
  C9. A training step updates the online networks by three separate calls of the one
  optimizer, in this order: the gradient of the taped loss with respect to the encoder's
  weights applied to the encoder, then the projector's, then the predictor's. Each call
  starts from the optimizer state the previous call left, and all three gradients are
  taken at the weights the networks entered the forward pass with. An optimizer that
  counts its calls has counted three more after the step, not one.
\<close>

theorem three_optimizer_calls:
  "(let ((z_target_1, z_target_2), t) = target_pass env x1 x2 (f_target s) (g_target s);
        z_target = z_target_2 @ z_target_1;
        L = taped_loss env x1 x2 z_target;
        (outs, (w_f2, w_g2, w_q2)) =
          online_pass env x1 x2 (f_online s) (g_online s) (q_online s);
        (w1, o1) = apply_gradients env (opt s)
           (tape_gradient env (\<lambda>w. L w (g_online s) (q_online s)) (f_online s)) w_f2;
        (w2, o2) = apply_gradients env o1
           (tape_gradient env (\<lambda>w. L (f_online s) w (q_online s)) (g_online s)) w_g2;
        (w3, o3) = apply_gradients env o2
           (tape_gradient env (\<lambda>w. L (f_online s) (g_online s) w) (q_online s)) w_q2;
        s' = snd (train_step_pretraining env s x1 x2 Fp)
    in f_online s' = w1 \<and> g_online s' = w2 \<and> q_online s' = w3 \<and> opt s' = o3) \<and>
   ((\<forall>n g w. snd (apply_gradients env n g w) = Suc n) \<longrightarrow>
      opt (snd (train_step_pretraining env s x1 x2 Fp)) = opt s + 3)"
proof -
  have "(\<forall>n g w. snd (apply_gradients env n g w) = Suc n) \<longrightarrow>
      opt (snd (train_step_pretraining env s x1 x2 Fp)) = opt s + 3"
    by (simp add: train_step_chain(4))
  moreover have "(let ((z_target_1, z_target_2), t) = target_pass env x1 x2 (f_target s) (g_target s);
        z_target = z_target_2 @ z_target_1;
        L = taped_loss env x1 x2 z_target;
        (outs, (w_f2, w_g2, w_q2)) =
          online_pass env x1 x2 (f_online s) (g_online s) (q_online s);
        (w1, o1) = apply_gradients env (opt s)
           (tape_gradient env (\<lambda>w. L w (g_online s) (q_online s)) (f_online s)) w_f2;
        (w2, o2) = apply_gradients env o1
           (tape_gradient env (\<lambda>w. L (f_online s) w (q_online s)) (g_online s)) w_g2;
        (w3, o3) = apply_gradients env o2
           (tape_gradient env (\<lambda>w. L (f_online s) (g_online s) w) (q_online s)) w_q2;
        s' = snd (train_step_pretraining env s x1 x2 Fp)
    in f_online s' = w1 \<and> g_online s' = w2 \<and> q_online s' = w3 \<and> opt s' = o3)"
    by (simp add: train_step_chain Let_def split_def)
  ultimately show ?thesis by blast
qed

theorem three_optimizer_calls_witness:
  "opt (snd (train_step_pretraining toy_env toy_state [[1, 2]] [[3, 4]] None)) = 3 \<and>
   opt toy_state = 0"
proof -
  have "\<forall>n g w. snd (apply_gradients toy_env n g w) = Suc n"
    by (simp add: toy_env_def)
  then have "opt (snd (train_step_pretraining toy_env toy_state [[1, 2]] [[3, 4]] None)) =
      opt toy_state + 3"
    using three_optimizer_calls [where env = toy_env and s = toy_state and ?x1.0 = "[[1, 2]]"
        and ?x2.0 = "[[3, 4]]" and Fp = None] by blast
  then show ?thesis by (simp add: toy_state_fields)
qed

section \<open>The loss of a step\<close>

text \<open>
  C4. In every training step the loss is \<open>byol_loss\<close> of the predictions
  \<open>[p_online_1, p_online_2]\<close>, concatenated in this order, against the targets
  \<open>[z_target_2, z_target_1]\<close>: the prediction of each view is paired with the target
  projection of the other view. The ten network calls are those of lines 77-90, in the
  order of the script, each on the weights the previous call of its network left.
\<close>

theorem loss_pairs_views_crosswise:
  "(let (h_target_1, t_f1) = ResNet18 env (f_target s) x1 True;
        (z_target_1, t_g1) = ProjectionHead env (g_target s) h_target_1 True;
        (h_target_2, t_f2) = ResNet18 env t_f1 x2 True;
        (z_target_2, t_g2) = ProjectionHead env t_g1 h_target_2 True;
        (h_online_1, w_f1) = ResNet18 env (f_online s) x1 True;
        (z_online_1, w_g1) = ProjectionHead env (g_online s) h_online_1 True;
        (p_online_1, w_q1) = ProjectionHead env (q_online s) z_online_1 True;
        (h_online_2, w_f2) = ResNet18 env w_f1 x2 True;
        (z_online_2, w_g2) = ProjectionHead env w_g1 h_online_2 True;
        (p_online_2, w_q2) = ProjectionHead env w_q1 z_online_2 True
    in fst (fst (train_step_pretraining env s x1 x2 Fp)) =
         byol_loss env (p_online_1 @ p_online_2) (z_target_2 @ z_target_1))"
  by (simp add: train_step_loss taped_loss_def online_pass_def online_forward_def
      target_pass_def target_forward_def Let_def split_def)

theorem loss_pairs_views_crosswise_witness:
  "fst (fst (train_step_pretraining toy_env toy_state [[1, 2]] [[3, 4]] None)) =
     byol_loss toy_env [[4, 2], [8, 6]] [[6, 8], [2, 4]] \<and>
   byol_loss toy_env [[4, 2], [8, 6]] [[6, 8], [2, 4]] = - 80 \<and>
   byol_loss toy_env [[4, 2], [8, 6]] [[2, 4], [6, 8]] = - 112"
  using loss_pairs_views_crosswise [of toy_env toy_state "[[1, 2]]" "[[3, 4]]" None]
  by (simp add: toy_state_fields toy_encoder toy_head toy_loss)

section \<open>The target branch of a step\<close>

text \<open>
  C3 as stated says that the target passes of a training step run in inference mode.
  The script calls the target encoder and projector with \<^verbatim>\<open>training=True\<close>; in the
  small environment, whose encoder doubles its output in training mode, the target
  projections and the loss of the step differ from those of inference mode.
\<close>

theorem target_in_inference_mode_counterexample:
  "fst (target_forward toy_env (f_target toy_state) (g_target toy_state) [[1, 2]]) \<noteq>
     inference_targets toy_env (f_target toy_state) (g_target toy_state) [[1, 2]] \<and>
   fst (fst (train_step_pretraining toy_env toy_state [[1, 2]] [[3, 4]] None)) \<noteq>
     taped_loss toy_env [[1, 2]] [[3, 4]]
       (inference_targets toy_env (f_target toy_state) (g_target toy_state) [[3, 4]] @
        inference_targets toy_env (f_target toy_state) (g_target toy_state) [[1, 2]])
       (f_online toy_state) (g_online toy_state) (q_online toy_state)"
proof -
  have i: "inference_targets toy_env [[[1, 0], [0, 1]], [[0, 0]]]
      [[[1, 0], [0, 1]], [[1, 0], [0, 1]]] [[a, b]] = [[a, b]]" for a b
    by (simp add: inference_targets_def toy_encoder toy_head Let_def)
  have t: "fst (target_forward toy_env [[[1, 0], [0, 1]], [[0, 0]]]
      [[[1, 0], [0, 1]], [[1, 0], [0, 1]]] [[a, b]]) = [[2 * a, 2 * b]]" for a b
    by (simp add: target_forward_def toy_encoder toy_head Let_def)
  have l: "taped_loss toy_env [[1, 2]] [[3, 4]] [[3, 4], [1, 2]]
      [[[1, 0], [0, 1]], [[0, 0]]] [[[1, 0], [0, 1]], [[1, 0], [0, 1]]]
      [[[1, 0], [0, 1]], [[0, 1], [1, 0]]] = - 40"
    by (simp add: taped_loss_def toy_online_pass toy_loss Let_def)
  show ?thesis
    by (simp add: toy_step toy_state_fields i t l)
qed

text \<open>
  C3, amended. In every training step the target projections of both views are computed
  with \<^verbatim>\<open>training=True\<close>, outside the gradient tape: they enter the taped loss as a
  constant, and each of the three gradients is the derivative of that loss with respect
  to the weights of one online network, applied to that online network.
\<close>

theorem target_branch_outside_tape:
  "(let (h_target_1, t_f1) = ResNet18 env (f_target s) x1 True;
        (z_target_1, t_g1) = ProjectionHead env (g_target s) h_target_1 True;
        (h_target_2, t_f2) = ResNet18 env t_f1 x2 True;
        (z_target_2, t_g2) = ProjectionHead env t_g1 h_target_2 True;
        L = taped_loss env x1 x2 (z_target_2 @ z_target_1);
        (outs, (w_f2, w_g2, w_q2)) =
          online_pass env x1 x2 (f_online s) (g_online s) (q_online s);
        r = train_step_pretraining env s x1 x2 Fp
    in fst (fst r) = L (f_online s) (g_online s) (q_online s) \<and>
       f_online (snd r) = fst (apply_gradients env (opt s)
          (tape_gradient env (\<lambda>w. L w (g_online s) (q_online s)) (f_online s)) w_f2) \<and>
       (\<exists>n. g_online (snd r) = fst (apply_gradients env n
          (tape_gradient env (\<lambda>w. L (f_online s) w (q_online s)) (g_online s)) w_g2)) \<and>
       (\<exists>n. q_online (snd r) = fst (apply_gradients env n
          (tape_gradient env (\<lambda>w. L (f_online s) (g_online s) w) (q_online s)) w_q2)))"
  unfolding Let_def split_def
  by (intro conjI exI;
      simp add: train_step_loss train_step_chain target_pass_def target_forward_def Let_def
        split_def)

theorem target_branch_outside_tape_witness:
  "fst (fst (train_step_pretraining toy_env toy_state [[1, 2]] [[3, 4]] None)) =
     taped_loss toy_env [[1, 2]] [[3, 4]] [[6, 8], [2, 4]]
       (f_online toy_state) (g_online toy_state) (q_online toy_state)"
  using target_branch_outside_tape [of toy_env toy_state "[[1, 2]]" "[[3, 4]]" None]
  by (simp add: Let_def split_def toy_state_fields toy_encoder toy_head)

section \<open>What a step does to the target networks\<close>






section \<open>The alignment tracker\<close>

lemma cosine_sim_negates:
  assumes "list_all (\<lambda>u. epsilon \<le> sum_list (map (\<lambda>y. y * y) u)) (transpose Y)"
    and "list_all (\<lambda>u. epsilon \<le> sum_list (map (\<lambda>y. y * y) u)) (transpose Z)"
  shows "cosine_sim Y Z = map uminus (column_similarities Y Z)"
proof -
  have "cosine_loss_column u v = - cosine_similarity u v"
    if "(u, v) \<in> set (zip (transpose Y) (transpose Z))" for u v
  proof -
    have "u \<in> set (transpose Y)" and "v \<in> set (transpose Z)"
      using that by (auto dest: set_zip_leftD set_zip_rightD)
    then show ?thesis
      using assms by (intro cosine_loss_negates) (simp_all add: list_all_iff)
  qed
  then show ?thesis
    by (auto simp add: cosine_sim_def column_similarities_def)
qed

lemma toy_column_similarities:
  "transpose [[1, 0], [0, 1::real]] = [[1, 0], [0, 1]]"
  "column_similarities [[1, 0], [0, 1]] [[1, 0], [0, 1]] = [1, 1]"
  by (simp_all add: column_similarities_def toy_unit_columns)

lemma tracked_state_fields:
  "F tracked_state = Some [[2, 0], [0, 3]]"
  "q_online tracked_state = [[[1, 0], [0, 1]], [[1, 0], [0, 1]]]"
  "F_eigenval tracked_state = []" "allignment tracked_state = []"
  "wp_eigenval tracked_state = []" "opt tracked_state = 0"
  "save_checkpoint 0 tracked_state = tracked_state"
  by (simp_all add: tracked_state_def toy_state_fields save_checkpoint_def)

text \<open>
  C6 as stated says that each run of the tracker appends one entry to each log and that
  the third entry holds the cosine similarities of the columns. The object the script
  calls, \<^verbatim>\<open>tf.keras.losses.CosineSimilarity\<close>, is a loss and returns the negated
  cosine: on a state whose eigenvectors are the unit vectors and whose predictor is the
  identity, every column has cosine similarity \<open>1\<close> with its image and the tracker logs
  \<open>- 1\<close>. And the tracker of epoch 0 on a state whose \<open>F\<close> is still \<open>None\<close> raises and
  appends nothing.
\<close>

theorem alignment_logs_negated_cosine_counterexample:
  "allignment (reached (epoch_end toy_env 0 tracked_state)) = [[- 1, - 1]] \<and>
   column_similarities (snd (eigh toy_env [[2, 0], [0, 3]]))
     (matmul (transpose (matmul (fc1_kernel toy_env (q_online tracked_state))
                                (fc2_kernel toy_env (q_online tracked_state))))
             (snd (eigh toy_env [[2, 0], [0, 3]]))) = [1, 1] \<and>
   F tracked_state = Some [[2, 0], [0, 3]] \<and>
   epoch_end toy_env 0 toy_state = Inl (Eigh_of_None, toy_state) \<and>
   allignment toy_state = []"
proof -
  have "epoch_end toy_env 0 tracked_state =
      Inr (tracked_state\<lparr>F_eigenval := [[2, 3]], wp_eigenval := [[1, 1]],
             allignment := [[- 1, - 1]]\<rparr>)"
    using epoch_end_tracked [of 0 tracked_state "[[2, 0], [0, 3]]" toy_env]
    by (simp add: tracked_state_fields toy_tracker_parts)
  moreover have "epoch_end toy_env 0 toy_state = Inl (Eigh_of_None, toy_state)"
    by (simp add: epoch_end_def Let_def save_checkpoint_def track_alignment_None
        toy_state_fields)
  ultimately show ?thesis
    by (simp add: tracked_state_fields toy_tracker_parts toy_column_similarities
        toy_state_fields)
qed

text \<open>
  C6, amended. The end of an epoch runs the alignment tracker exactly when the epoch's
  0-indexed id is divisible by 5: otherwise the epoch ends after the checkpoint step,
  which never touches the three logs. When the tracker runs on a state whose \<open>F\<close> is
  still \<open>None\<close>, the eigendecomposition raises and nothing is appended. When it runs on a
  state whose \<open>F\<close> is set, it appends one entry to each log: the eigenvalues of \<open>F\<close> to
  \<open>F_eigenval\<close>; the real parts of the eigenvalues of \<open>wp = transpose (w1 \<cdot> w2)\<close>, the
  product of the predictor's two kernels, to \<open>wp_eigenval\<close>; and to \<open>allignment\<close> the
  value of the cosine loss on the eigenvectors of \<open>F\<close> and \<open>wp\<close> times these
  eigenvectors, which is, column by column, minus the cosine similarity whenever the
  squared norms of the columns are at least \<open>10\<^sup>-\<^sup>1\<^sup>2\<close>. The tracker leaves \<open>F\<close>, the weights
  of all five networks, the optimizer, the losses and the data provider unchanged.
\<close>

theorem alignment_tracker_every_fifth_epoch:
  "(epoch_id mod 5 \<noteq> 0 \<longrightarrow>
      epoch_end env epoch_id s = Inr (save_checkpoint epoch_id s)) \<and>
   F_eigenval (save_checkpoint epoch_id s) = F_eigenval s \<and>
   wp_eigenval (save_checkpoint epoch_id s) = wp_eigenval s \<and>
   allignment (save_checkpoint epoch_id s) = allignment s \<and>
   (epoch_id mod 5 = 0 \<longrightarrow> F s = None \<longrightarrow>
      epoch_end env epoch_id s = Inl (Eigh_of_None, save_checkpoint epoch_id s)) \<and>
   (epoch_id mod 5 = 0 \<longrightarrow> F s = Some A \<longrightarrow>
      (let (eigval, eigvec) = eigh env A;
           w1 = fc1_kernel env (q_online s);
           w2 = fc2_kernel env (q_online s);
           wp = transpose (matmul w1 w2)
       in \<exists>s'. epoch_end env epoch_id s = Inr s' \<and>
            F_eigenval s' = F_eigenval s @ [eigval] \<and>
            wp_eigenval s' = wp_eigenval s @ [eigvals_real env wp] \<and>
            allignment s' = allignment s @ [cosine_sim eigvec (matmul wp eigvec)] \<and>
            F s' = F s \<and>
            f_online s' = f_online s \<and> g_online s' = g_online s \<and> q_online s' = q_online s \<and>
            f_target s' = f_target s \<and> g_target s' = g_target s \<and>
            opt s' = opt s \<and> losses s' = losses s \<and> data s' = data s)) \<and>
   (list_all (\<lambda>u. epsilon \<le> sum_list (map (\<lambda>y. y * y) u)) (transpose Y) \<longrightarrow>
    list_all (\<lambda>u. epsilon \<le> sum_list (map (\<lambda>y. y * y) u)) (transpose Z) \<longrightarrow>
      cosine_sim Y Z = map uminus (column_similarities Y Z))"
proof -
  have some: "epoch_id mod 5 = 0 \<longrightarrow> F s = Some A \<longrightarrow>
      (let (eigval, eigvec) = eigh env A;
           w1 = fc1_kernel env (q_online s);
           w2 = fc2_kernel env (q_online s);
           wp = transpose (matmul w1 w2)
       in \<exists>s'. epoch_end env epoch_id s = Inr s' \<and>
            F_eigenval s' = F_eigenval s @ [eigval] \<and>
            wp_eigenval s' = wp_eigenval s @ [eigvals_real env wp] \<and>
            allignment s' = allignment s @ [cosine_sim eigvec (matmul wp eigvec)] \<and>
            F s' = F s \<and>
            f_online s' = f_online s \<and> g_online s' = g_online s \<and> q_online s' = q_online s \<and>
            f_target s' = f_target s \<and> g_target s' = g_target s \<and>
            opt s' = opt s \<and> losses s' = losses s \<and> data s' = data s)"
  proof (intro impI)
    assume e: "epoch_id mod 5 = 0" and A: "F s = Some A"
    show "(let (eigval, eigvec) = eigh env A;
           w1 = fc1_kernel env (q_online s);
           w2 = fc2_kernel env (q_online s);
           wp = transpose (matmul w1 w2)
       in \<exists>s'. epoch_end env epoch_id s = Inr s' \<and>
            F_eigenval s' = F_eigenval s @ [eigval] \<and>
            wp_eigenval s' = wp_eigenval s @ [eigvals_real env wp] \<and>
            allignment s' = allignment s @ [cosine_sim eigvec (matmul wp eigvec)] \<and>
            F s' = F s \<and>
            f_online s' = f_online s \<and> g_online s' = g_online s \<and> q_online s' = q_online s \<and>
            f_target s' = f_target s \<and> g_target s' = g_target s \<and>
            opt s' = opt s \<and> losses s' = losses s \<and> data s' = data s)"
      unfolding epoch_end_tracked [OF e A]
      by (simp add: Let_def split_def save_checkpoint_frame)
  qed
  have none: "epoch_id mod 5 = 0 \<longrightarrow> F s = None \<longrightarrow>
      epoch_end env epoch_id s = Inl (Eigh_of_None, save_checkpoint epoch_id s)"
    by (simp add: epoch_end_def Let_def track_alignment_None save_checkpoint_frame)
  have cos: "list_all (\<lambda>u. epsilon \<le> sum_list (map (\<lambda>y. y * y) u)) (transpose Y) \<longrightarrow>
    list_all (\<lambda>u. epsilon \<le> sum_list (map (\<lambda>y. y * y) u)) (transpose Z) \<longrightarrow>
      cosine_sim Y Z = map uminus (column_similarities Y Z)"
    using cosine_sim_negates by blast
  show ?thesis
    using some none cos epoch_end_untracked [of epoch_id env s]
    by (simp add: save_checkpoint_frame)
qed

theorem alignment_tracker_every_fifth_epoch_witness:
  "epoch_end toy_env 1 toy_state = Inr toy_state \<and>
   epoch_end toy_env 0 toy_state = Inl (Eigh_of_None, toy_state) \<and>
   (\<exists>s'. epoch_end toy_env 0 tracked_state = Inr s' \<and>
         F_eigenval s' = [[2, 3]] \<and> wp_eigenval s' = [[1, 1]] \<and>
         allignment s' = [[- 1, - 1]] \<and>
         F s' = Some [[2, 0], [0, 3]] \<and> opt s' = 0) \<and>
   cosine_sim [[1, 0], [0, 1]] [[1, 0], [0, 1]] =
     map uminus (column_similarities [[1, 0], [0, 1]] [[1, 0], [0, 1]]) \<and>
   column_similarities [[1, 0], [0, 1]] [[1, 0], [0, 1]] = [1, 1]"
proof -
  note t = alignment_tracker_every_fifth_epoch
  have a: "epoch_end toy_env 1 toy_state = Inr (save_checkpoint 1 toy_state)"
    using t [where epoch_id = 1 and env = toy_env and s = toy_state] by simp
  have b: "save_checkpoint 1 toy_state = toy_state" "save_checkpoint 0 toy_state = toy_state"
    by (simp_all add: save_checkpoint_def)
  have c: "epoch_end toy_env 0 toy_state = Inl (Eigh_of_None, save_checkpoint 0 toy_state)"
    using t [where epoch_id = 0 and env = toy_env and s = toy_state] by (simp add: toy_state_fields)
  have "\<exists>s'. epoch_end toy_env 0 tracked_state = Inr s' \<and>
         F_eigenval s' = [[2, 3]] \<and> wp_eigenval s' = [[1, 1]] \<and>
         allignment s' = [[- 1, - 1]] \<and>
         F s' = Some [[2, 0], [0, 3]] \<and> opt s' = 0"
    using t [where epoch_id = 0 and env = toy_env and s = tracked_state and A = "[[2, 0], [0, 3]]"]
    by (auto simp add: Let_def tracked_state_fields toy_tracker_parts)
  moreover have "epsilon \<le> 1"
    by (simp add: epsilon_def)
  then have "cosine_sim [[1, 0], [0, 1]] [[1, 0], [0, 1]] =
     map uminus (column_similarities [[1, 0], [0, 1]] [[1, 0], [0, 1]])"
    using t [where Y = "[[1, 0], [0, 1]]" and Z = "[[1, 0], [0, 1]]" and epoch_id = 1
        and env = toy_env and s = toy_state and A = "[]"]
    by (simp add: toy_column_similarities)
  ultimately show ?thesis
    using a b c by (simp add: toy_column_similarities)
qed

section \<open>A run of one epoch and one batch\<close>

text \<open>
  C7. A run with \<open>epochs = 1\<close> and \<open>num_samples = 512\<close>, on a data provider that then
  holds 512 training images and with mirrored networks, returns after exactly one
  batch: one loss was appended; \<open>F\<close> is the correlation matrix of that batch, not a
  blend; the loop printed no line (the log interval of 10 batches was not reached) and
  wrote no checkpoint; each of the three alignment logs has one entry; and the only
  file written is \<^verbatim>\<open>losses.txt\<close>, holding that one loss.
\<close>

theorem single_batch_run:
  assumes n: "num_train_images env (CIFAR10 env 512) = 512"
    and k: "keeps_shapes env"
    and mf: "list_all2 same_shape (built_f_target b) (built_f_online b)"
    and mg: "list_all2 same_shape (built_g_target b) (built_g_online b)"
  shows "\<exists>logs s. main env b 1 512 = Inr (logs, s) \<and>
     py_range (num_train_images env (CIFAR10 env 512) div 512) = [0] \<and>
     length (losses s) = 1 \<and>
     (let ((x1, x2), d) =
            get_batch_pretraining env (shuffle_training_data env (CIFAR10 env 512)) 0 512;
          (h_online_1, w_f1) = ResNet18 env (built_f_online b) x1 True;
          (z_online_1, w_g1) = ProjectionHead env (built_g_online b) h_online_1 True;
          (h_online_2, w_f2) = ResNet18 env w_f1 x2 True;
          (z_online_2, w_g2) = ProjectionHead env w_g1 h_online_2 True
      in F s = Some (batch_corr z_online_1 z_online_2)) \<and>
     stdout s = [] \<and>
     files s = [(Losses_txt, Loss_lines (losses s))] \<and>
     length (F_eigenval s) = 1 \<and> length (allignment s) = 1 \<and> length (wp_eigenval s) = 1 \<and>
     logs = (F_eigenval s, allignment s, wp_eigenval s)"
proof -
  let ?s0 = "initial_state env b 512"
  have m: "mirrored ?s0"
    using mf mg by (simp add: mirrored_def initial_state_fields)
  have bpe: "num_train_images env (data ?s0) div 512 = 1"
    using n by (simp add: initial_state_fields)
  obtain s' where r: "epoch_body env 1 1 0 ?s0 = Inr s'"
    and F': "F s' = Some (snd (fst (fetch_and_step env 0
                 (?s0\<lparr>data := shuffle_training_data env (data ?s0)\<rparr>))))"
    and l': "losses s' = losses ?s0 @ [fst (fst (fetch_and_step env 0
                 (?s0\<lparr>data := shuffle_training_data env (data ?s0)\<rparr>)))]"
    and o': "stdout s' = stdout ?s0" and f': "files s' = files ?s0"
    and e': "length (F_eigenval s') = Suc (length (F_eigenval ?s0))"
      "length (allignment s') = Suc (length (allignment ?s0))"
      "length (wp_eigenval s') = Suc (length (wp_eigenval ?s0))"
    using single_epoch_single_batch [OF k m, of 1] by blast
  have main: "main env b 1 512 =
      Inr ((F_eigenval s', allignment s', wp_eigenval s'),
           s'\<lparr>files := files s' @ [(Losses_txt, Loss_lines (losses s'))]\<rparr>)"
    using r by (simp add: main_def Let_def bpe py_range_simps)
  have Fv: "(let ((x1, x2), d) =
            get_batch_pretraining env (shuffle_training_data env (CIFAR10 env 512)) 0 512;
          (h_online_1, w_f1) = ResNet18 env (built_f_online b) x1 True;
          (z_online_1, w_g1) = ProjectionHead env (built_g_online b) h_online_1 True;
          (h_online_2, w_f2) = ResNet18 env w_f1 x2 True;
          (z_online_2, w_g2) = ProjectionHead env w_g1 h_online_2 True
      in F s' = Some (batch_corr z_online_1 z_online_2))"
    unfolding F'
    by (simp add: fetch_and_step_F batch_snapshot_def online_pass_def online_forward_def
        Let_def split_def update_f_def initial_state_fields)
  have "py_range (num_train_images env (CIFAR10 env 512) div 512) = [0]"
    using n by (simp add: py_range_simps)
  then show ?thesis
    unfolding main using Fv
    by (simp add: l' o' f' e' initial_state_fields Let_def split_def)
qed

theorem single_batch_run_witness:
  "\<exists>logs s. main toy_env toy_built 1 512 = Inr (logs, s) \<and> length (losses s) = 1 \<and>
     F s = Some [[20, 28], [28, 40]] \<and> stdout s = [] \<and>
     files s = [(Losses_txt, Loss_lines (losses s))] \<and> length (allignment s) = 1"
proof -
  have "num_train_images toy_env (CIFAR10 toy_env 512) = 512"
    by (simp add: toy_data)
  then obtain logs s where "main toy_env toy_built 1 512 = Inr (logs, s)"
    and "length (losses s) = 1"
    and F: "(let ((x1, x2), d) =
            get_batch_pretraining toy_env (shuffle_training_data toy_env (CIFAR10 toy_env 512)) 0 512;
          (h_online_1, w_f1) = ResNet18 toy_env (built_f_online toy_built) x1 True;
          (z_online_1, w_g1) = ProjectionHead toy_env (built_g_online toy_built) h_online_1 True;
          (h_online_2, w_f2) = ResNet18 toy_env w_f1 x2 True;
          (z_online_2, w_g2) = ProjectionHead toy_env w_g1 h_online_2 True
      in F s = Some (batch_corr z_online_1 z_online_2))"
    and "stdout s = []" and "files s = [(Losses_txt, Loss_lines (losses s))]"
    and "length (allignment s) = 1"
    using single_batch_run [OF _ toy_keeps_shapes toy_built_shapes(1,2)] by blast
  moreover have "built_f_online toy_built = [[[1, 0], [0, 1]], [[0, 0]]]"
    by (simp add: toy_built_def)
  ultimately have "F s = Some [[20, 28], [28, 40]]"
    by (simp add: toy_built_shapes(3) toy_batch toy_encoder toy_head toy_batch_corr)
  then show ?thesis
    using \<open>main toy_env toy_built 1 512 = Inr (logs, s)\<close> \<open>length (losses s) = 1\<close>
      \<open>stdout s = []\<close> \<open>files s = [(Losses_txt, Loss_lines (losses s))]\<close>
      \<open>length (allignment s) = 1\<close>
    by blast
qed

section \<open>The correlation matrix from epoch to epoch\<close>

lemma first_batch_of_epoch:
  assumes "1 \<le> bpe"
  shows "batch_loop env E bpe e (py_range bpe) s =
     (case batch_body env E bpe e 0 s of
        Inl x \<Rightarrow> Inl x
      | Inr s' \<Rightarrow> batch_loop env E bpe e (map (\<lambda>k. k + 1) (py_range (bpe - 1))) s')"
  by (subst py_range_pos [OF assms]) simp

lemma snapshot_calls:
  "(let ((x1, x2), d) = get_batch_pretraining env (data s) batch_id 512;
        (h_online_1, w_f1) = ResNet18 env (f_online s) x1 True;
        (z_online_1, w_g1) = ProjectionHead env (g_online s) h_online_1 True;
        (h_online_2, w_f2) = ResNet18 env w_f1 x2 True;
        (z_online_2, w_g2) = ProjectionHead env w_g1 h_online_2 True
    in batch_snapshot env batch_id s = batch_corr z_online_1 z_online_2)"
  by (simp add: batch_snapshot_def online_pass_def online_forward_def Let_def split_def)

lemma epoch_boundary:
  assumes k: "keeps_shapes env" and m0: "mirrored s0" and b: "1 \<le> bpe" and e: "1 \<le> epochs"
  shows "\<exists>s1 A s2.
     epoch_loop env (epochs + 1) bpe (py_range epochs) s0 = Inr s1 \<and>
     F s1 = Some A \<and>
     epoch_loop env (epochs + 1) bpe (py_range (epochs + 1)) s0 =
       epoch_body env (epochs + 1) bpe epochs s1 \<and>
     batch_body env (epochs + 1) bpe epochs 0
       (s1\<lparr>data := shuffle_training_data env (data s1)\<rparr>) = Inr s2 \<and>
     batch_loop env (epochs + 1) bpe epochs (py_range bpe)
       (s1\<lparr>data := shuffle_training_data env (data s1)\<rparr>) =
       batch_loop env (epochs + 1) bpe epochs (map (\<lambda>k. k + 1) (py_range (bpe - 1))) s2 \<and>
     F s2 = Some (mat_add (mat_scale 0.8 A)
                  (mat_scale 0.2
                     (batch_snapshot env 0 (s1\<lparr>data := shuffle_training_data env (data s1)\<rparr>))))"
proof -
  have ne: "py_range epochs \<noteq> []"
    using py_range_pos [OF e] by simp
  obtain s1 where l1: "epoch_loop env (epochs + 1) bpe (py_range epochs) s0 = Inr s1"
    and m1: "mirrored s1" and F1: "F s1 \<noteq> None"
    using epoch_loop_completes [OF k b m0, of "epochs + 1" "py_range epochs"] ne by auto
  obtain A where A: "F s1 = Some A"
    using F1 by auto
  let ?s1 = "s1\<lparr>data := shuffle_training_data env (data s1)\<rparr>"
  have m1': "mirrored ?s1"
    using m1 by (simp add: mirrored_def)
  obtain s2 where b2: "batch_body env (epochs + 1) bpe epochs 0 ?s1 = Inr s2"
    and F2: "F s2 = Some (snd (fst (fetch_and_step env 0 ?s1)))"
    using batch_body_completes [OF k m1', of "epochs + 1" bpe epochs 0] by blast
  have F2': "F s2 = Some (mat_add (mat_scale 0.8 A)
                  (mat_scale 0.2 (batch_snapshot env 0 ?s1)))"
    using F2 by (simp add: fetch_and_step_F A blend_with_previous)
  have "py_range (epochs + 1) = py_range epochs @ [epochs]"
    using e by (simp add: py_range_snoc)
  then have l2: "epoch_loop env (epochs + 1) bpe (py_range (epochs + 1)) s0 =
       epoch_body env (epochs + 1) bpe epochs s1"
    using l1 by (simp add: epoch_loop_append split: sum.splits)
  have l3: "batch_loop env (epochs + 1) bpe epochs (py_range bpe) ?s1 =
       batch_loop env (epochs + 1) bpe epochs (map (\<lambda>k. k + 1) (py_range (bpe - 1))) s2"
    using first_batch_of_epoch [OF b, of env "epochs + 1" epochs ?s1] b2 by simp
  show ?thesis
    using l1 A l2 b2 l3 F2' by blast
qed

text \<open>
  C8. For a pipeline whose online projections are batches of vectors of one width \<open>P\<close>:
  the correlation snapshot of every batch, the mean over both views and over the batch
  of the outer products of the online projections with themselves, is a symmetric
  \<open>P \<times> P\<close> matrix; \<open>F\<close> is \<open>None\<close> or symmetric in the state a run of \<open>main\<close> ends in,
  whether it returned or raised, and the body of the batch loop keeps it so. A batch
  body sets \<open>F\<close> exactly once, to \<open>update_f\<close> of the previous \<open>F\<close> and the batch's
  snapshot. Nothing else assigns \<open>F\<close>: the end of an epoch leaves it as it is, and an
  epoch ends with the \<open>F\<close> its batch loop produced. \<open>F\<close> is not reset between epochs: in
  a run of \<open>main\<close> over \<open>epochs + 1\<close> epochs of at least one batch each, the first batch of
  the last epoch sets \<open>F\<close> to \<open>0.8\<close> times the matrix the earlier epochs left plus \<open>0.2\<close>
  times its own snapshot; with one batch per epoch this blend is the \<open>F\<close> that \<open>main\<close>
  ends with.
\<close>

theorem F_symmetric_and_persistent:
  assumes p: "projects_to env P (built_g_online b)" and k: "keeps_shapes env"
    and mf: "list_all2 same_shape (built_f_target b) (built_f_online b)"
    and mg: "list_all2 same_shape (built_g_target b) (built_g_online b)"
  shows "(case main env b epochs n of
            Inl (e, s) \<Rightarrow> F_symmetric P s
          | Inr (logs, s) \<Rightarrow> F_symmetric P s) \<and>
     (list_all2 same_shape (g_online s) (built_g_online b) \<longrightarrow>
        sym_mat P (batch_snapshot env batch_id s) \<and>
        (F_symmetric P s \<longrightarrow>
           F_symmetric P (reached (batch_body env epochs batches_per_epoch epoch_id batch_id s)))) \<and>
     (let ((x1, x2), d) = get_batch_pretraining env (data s) batch_id 512;
          (h_online_1, w_f1) = ResNet18 env (f_online s) x1 True;
          (z_online_1, w_g1) = ProjectionHead env (g_online s) h_online_1 True;
          (h_online_2, w_f2) = ResNet18 env w_f1 x2 True;
          (z_online_2, w_g2) = ProjectionHead env w_g1 h_online_2 True
      in batch_snapshot env batch_id s = batch_corr z_online_1 z_online_2) \<and>
     F (reached (batch_body env epochs batches_per_epoch epoch_id batch_id s)) =
       Some (update_f (F s) (batch_snapshot env batch_id s) lambda_default) \<and>
     F (reached (epoch_end env epoch_id s)) = F s \<and>
     F (reached (epoch_body env epochs batches_per_epoch epoch_id s)) =
       F (reached (batch_loop env epochs batches_per_epoch epoch_id (py_range batches_per_epoch)
                     (s\<lparr>data := shuffle_training_data env (data s)\<rparr>))) \<and>
     (1 \<le> epochs \<longrightarrow> 1 \<le> num_train_images env (CIFAR10 env n) div 512 \<longrightarrow>
        (let bpe = num_train_images env (CIFAR10 env n) div 512
         in \<exists>s1 A s2.
              epoch_loop env (epochs + 1) bpe (py_range epochs) (initial_state env b n) = Inr s1 \<and>
              F s1 = Some A \<and>
              epoch_loop env (epochs + 1) bpe (py_range (epochs + 1)) (initial_state env b n) =
                epoch_body env (epochs + 1) bpe epochs s1 \<and>
              batch_body env (epochs + 1) bpe epochs 0
                (s1\<lparr>data := shuffle_training_data env (data s1)\<rparr>) = Inr s2 \<and>
              batch_loop env (epochs + 1) bpe epochs (py_range bpe)
                (s1\<lparr>data := shuffle_training_data env (data s1)\<rparr>) =
                batch_loop env (epochs + 1) bpe epochs (map (\<lambda>k. k + 1) (py_range (bpe - 1))) s2 \<and>
              F s2 = Some (mat_add (mat_scale 0.8 A)
                (mat_scale 0.2
                   (batch_snapshot env 0 (s1\<lparr>data := shuffle_training_data env (data s1)\<rparr>)))))) \<and>
     (1 \<le> epochs \<longrightarrow> num_train_images env (CIFAR10 env n) div 512 = 1 \<longrightarrow>
        (\<exists>s1 A logs s'.
           epoch_loop env (epochs + 1) 1 (py_range epochs) (initial_state env b n) = Inr s1 \<and>
           F s1 = Some A \<and>
           main env b (epochs + 1) n = Inr (logs, s') \<and>
           F s' = Some (mat_add (mat_scale 0.8 A)
             (mat_scale 0.2
                (batch_snapshot env 0 (s1\<lparr>data := shuffle_training_data env (data s1)\<rparr>))))))"
proof -
  have m0: "mirrored (initial_state env b n)"
    using mf mg by (simp add: mirrored_def initial_state_fields)
  have c1: "case main env b epochs n of
            Inl (e, s) \<Rightarrow> F_symmetric P s
          | Inr (logs, s) \<Rightarrow> F_symmetric P s"
    by (rule main_symmetric [OF p k])
  have c2: "list_all2 same_shape (g_online s) (built_g_online b) \<longrightarrow>
        sym_mat P (batch_snapshot env batch_id s) \<and>
        (F_symmetric P s \<longrightarrow>
           F_symmetric P (reached (batch_body env epochs batches_per_epoch epoch_id batch_id s)))"
    using sym_snapshot [OF p _ k] batch_body_symmetric(1) [OF p k] by blast
  note c3 = snapshot_calls [of env s batch_id]
  have c4: "F (reached (batch_body env epochs batches_per_epoch epoch_id batch_id s)) =
       Some (update_f (F s) (batch_snapshot env batch_id s) lambda_default)"
    by (simp add: batch_body_reached fetch_and_step_F)
  note c5 = epoch_end_reached(1) [of env epoch_id s]
  note c6 = epoch_body_reached(1) [of env epochs batches_per_epoch epoch_id s]
  have c7: "1 \<le> epochs \<longrightarrow> 1 \<le> num_train_images env (CIFAR10 env n) div 512 \<longrightarrow>
        (let bpe = num_train_images env (CIFAR10 env n) div 512
         in \<exists>s1 A s2.
              epoch_loop env (epochs + 1) bpe (py_range epochs) (initial_state env b n) = Inr s1 \<and>
              F s1 = Some A \<and>
              epoch_loop env (epochs + 1) bpe (py_range (epochs + 1)) (initial_state env b n) =
                epoch_body env (epochs + 1) bpe epochs s1 \<and>
              batch_body env (epochs + 1) bpe epochs 0
                (s1\<lparr>data := shuffle_training_data env (data s1)\<rparr>) = Inr s2 \<and>
              batch_loop env (epochs + 1) bpe epochs (py_range bpe)
                (s1\<lparr>data := shuffle_training_data env (data s1)\<rparr>) =
                batch_loop env (epochs + 1) bpe epochs (map (\<lambda>k. k + 1) (py_range (bpe - 1))) s2 \<and>
              F s2 = Some (mat_add (mat_scale 0.8 A)
                (mat_scale 0.2
                   (batch_snapshot env 0 (s1\<lparr>data := shuffle_training_data env (data s1)\<rparr>)))))"
    unfolding Let_def using epoch_boundary [OF k m0] by blast
  have c8: "1 \<le> epochs \<longrightarrow> num_train_images env (CIFAR10 env n) div 512 = 1 \<longrightarrow>
        (\<exists>s1 A logs s'.
           epoch_loop env (epochs + 1) 1 (py_range epochs) (initial_state env b n) = Inr s1 \<and>
           F s1 = Some A \<and>
           main env b (epochs + 1) n = Inr (logs, s') \<and>
           F s' = Some (mat_add (mat_scale 0.8 A)
             (mat_scale 0.2
                (batch_snapshot env 0 (s1\<lparr>data := shuffle_training_data env (data s1)\<rparr>)))))"
    using run_blends_across_epochs [OF k mf mg] by blast
  show ?thesis
    using c1 c2 c3 c4 c5 c6 c7 c8 by blast
qed

theorem F_symmetric_and_persistent_witness:
  "\<exists>logs s. main toy_env toy_built 2 512 = Inr (logs, s) \<and>
     F s = Some [[20952 / 5, 21252 / 5], [21252 / 5, 21572 / 5]] \<and>
     sym_mat 2 [[20952 / 5, 21252 / 5], [21252 / 5, 21572 / 5]]"
proof -
  have p: "projects_to toy_env 2 (built_g_online toy_built)"
    using toy_projects by (simp add: toy_built_shapes(3))
  note t = F_symmetric_and_persistent [OF p toy_keeps_shapes toy_built_shapes(1,2),
      where epochs = 1 and n = 512 and s = toy_state and batch_id = 0 and batches_per_epoch = 1
        and epoch_id = 0]
  have i: "initial_state toy_env toy_built 512 = toy_state"
    by (simp add: toy_state_def)
  have "(1::int) \<le> 1" and "num_train_images toy_env (CIFAR10 toy_env 512) div 512 = 1"
    by (simp_all add: toy_data)
  with t obtain s1 A logs s' where
    l: "epoch_loop toy_env (1 + 1) 1 (py_range 1) (initial_state toy_env toy_built 512) = Inr s1"
    and A: "F s1 = Some A"
    and r: "main toy_env toy_built (1 + 1) 512 = Inr (logs, s')"
    and F': "F s' = Some (mat_add (mat_scale 0.8 A)
             (mat_scale 0.2
                (batch_snapshot toy_env 0 (s1\<lparr>data := shuffle_training_data toy_env (data s1)\<rparr>))))"
    by blast
  obtain s0 where e0: "epoch_body toy_env 2 1 0 toy_state = Inr s0"
    and F0: "F s0 = Some [[20, 28], [28, 40]]"
    and f0: "f_online s0 = [[[2, 1], [1, 2]], [[3, 3]]]"
    and g0: "g_online s0 = [[[2, 1], [1, 2]], [[2, 1], [1, 2]]]"
    using toy_first_epoch [of 2] by blast
  have "s1 = s0"
    using l e0 by (simp add: i py_range_simps)
  then have A': "A = [[20, 28], [28, 40]]"
    and snap: "batch_snapshot toy_env 0 (s1\<lparr>data := shuffle_training_data toy_env (data s1)\<rparr>) =
       [[20872, 21140], [21140, 21412]]"
    using A F0 f0 g0
    by (simp_all add: batch_snapshot_def toy_batch toy_second_pass toy_second_corr)
  have Fv: "F s' = Some [[20952 / 5, 21252 / 5], [21252 / 5, 21572 / 5]]"
    unfolding F' A' snap by (simp add: mat_add_def mat_scale_def)
  have r2: "main toy_env toy_built 2 512 = Inr (logs, s')"
    using r by simp
  have "case main toy_env toy_built 2 512 of
            Inl (e, s) \<Rightarrow> F_symmetric 2 s
          | Inr (logs, s) \<Rightarrow> F_symmetric 2 s"
    using F_symmetric_and_persistent [OF p toy_keeps_shapes toy_built_shapes(1,2),
      where epochs = 2 and n = 512 and s = toy_state and batch_id = 0 and batches_per_epoch = 1
        and epoch_id = 0]
    by blast
  then have sym: "sym_mat 2 [[20952 / 5, 21252 / 5], [21252 / 5, 21572 / 5]]"
    using r2 Fv by (simp add: F_symmetric_def)
  show ?thesis using r2 Fv sym by blast
qed

section \<open>Properties of \<open>update_f\<close>\<close>

text \<open>
  C1. For every call of \<open>update_f\<close> with the default smoothing factor: when the prior
  matrix is \<open>None\<close> the result is the batch correlation \<open>corr\<close> itself; otherwise it is
  \<open>0.8 * F + 0.2 * corr\<close>, which for operands of one shape means entry \<open>(i, j)\<close> of the
  result is \<open>0.8 * F[i][j] + 0.2 * corr[i][j]\<close>.
\<close>

theorem update_f_default:
  "update_f None corr lambda_default = corr \<and>
   update_f (Some F0) corr lambda_default = mat_add (mat_scale 0.8 F0) (mat_scale 0.2 corr) \<and>
   (same_shape F0 corr \<longrightarrow>
      (\<forall>i<length F0. \<forall>j<length (F0 ! i).
         update_f (Some F0) corr lambda_default ! i ! j = 0.8 * F0 ! i ! j + 0.2 * corr ! i ! j))"
proof -
  have eq: "update_f (Some F0) corr lambda_default =
      mat_add (mat_scale 0.8 F0) (mat_scale 0.2 corr)"
    by (simp add: update_f_def lambda_default_def)
  have "update_f None corr lambda_default = corr"
    by (simp add: update_f_def)
  moreover have "same_shape F0 corr \<longrightarrow>
      (\<forall>i<length F0. \<forall>j<length (F0 ! i).
         update_f (Some F0) corr lambda_default ! i ! j = 0.8 * F0 ! i ! j + 0.2 * corr ! i ! j)"
    unfolding eq using blend_entry by blast
  ultimately show ?thesis
    using eq by blast
qed

theorem update_f_default_witness:
  "update_f None [[1, 2], [2, 5]] lambda_default = [[1, 2], [2, 5]] \<and>
   update_f (Some [[10, 0], [0, 20]]) [[1, 2], [2, 5]] lambda_default ! 1 ! 1 = 17"
proof -
  let ?F = "[[10, 0], [0, 20]] :: mat" and ?c = "[[1, 2], [2, 5]] :: mat"
  note t = update_f_default [of ?c ?F]
  have s: "same_shape ?F ?c"
    by (simp add: same_shape_def)
  from t s have all: "\<forall>i<length ?F. \<forall>j<length (?F ! i).
      update_f (Some ?F) ?c lambda_default ! i ! j = 0.8 * ?F ! i ! j + 0.2 * ?c ! i ! j"
    by blast
  have "(1::nat) < length ?F" and "(1::nat) < length (?F ! 1)"
    by simp_all
  with all have "update_f (Some ?F) ?c lambda_default ! 1 ! 1 = 0.8 * ?F ! 1 ! 1 + 0.2 * ?c ! 1 ! 1"
    by blast
  then have "update_f (Some ?F) ?c lambda_default ! 1 ! 1 = 17"
    by simp
  moreover from t have "update_f None ?c lambda_default = ?c"
    by blast
  ultimately show ?thesis by blast
qed


section \<open>A run on fewer than 512 images\<close>

text \<open>
  C10. When the data provider holds fewer than 512 training images and at least one
  epoch is asked for, \<open>batches_per_epoch\<close> is \<open>0\<close> and the batch loop of epoch 0 has no
  iteration; \<open>F\<close> is still \<open>None\<close> when the alignment tracker runs at the end of epoch 0,
  the eigendecomposition raises and the run stops there: no loss was appended, no file
  written, no network or optimizer changed.
\<close>

theorem small_dataset_stops_at_first_tracker:
  assumes e: "1 \<le> epochs" and n: "num_train_images env (CIFAR10 env num_samples) < 512"
  shows "py_range (num_train_images env (CIFAR10 env num_samples) div 512) = [] \<and>
    (0 \<le> num_train_images env (CIFAR10 env num_samples) \<longrightarrow>
       num_train_images env (CIFAR10 env num_samples) div 512 = 0) \<and>
    (\<exists>s. main env b epochs num_samples = Inl (Eigh_of_None, s) \<and>
         F s = None \<and> losses s = [] \<and> files s = [] \<and> stdout s = [] \<and>
         F_eigenval s = [] \<and> allignment s = [] \<and> wp_eigenval s = [] \<and>
         f_online s = built_f_online b \<and> g_online s = built_g_online b \<and>
         q_online s = built_q_online b \<and> f_target s = built_f_target b \<and>
         g_target s = built_g_target b \<and> opt s = built_opt b)"
proof -
  let ?s0 = "initial_state env b num_samples"
  let ?bpe = "num_train_images env (data ?s0) div 512"
  have bpe: "?bpe \<le> 0"
    using n by (simp add: initial_state_fields)
  obtain rest where r: "py_range epochs = 0 # rest"
    using py_range_pos [OF e] by blast
  have "epoch_body env epochs ?bpe 0 ?s0 =
     Inl (Eigh_of_None, ?s0\<lparr>data := shuffle_training_data env (data ?s0)\<rparr>)"
    using first_epoch_without_batches [OF bpe initial_state_fields(1), of env epochs] .
  then have "main env b epochs num_samples =
     Inl (Eigh_of_None, ?s0\<lparr>data := shuffle_training_data env (data ?s0)\<rparr>)"
    by (simp add: main_def Let_def r)
  moreover have "py_range (num_train_images env (CIFAR10 env num_samples) div 512) = []"
    using bpe by (simp add: initial_state_fields py_range_simps)
  moreover have "0 \<le> num_train_images env (CIFAR10 env num_samples) \<longrightarrow>
       num_train_images env (CIFAR10 env num_samples) div 512 = 0"
    using n by simp
  ultimately show ?thesis
    by (simp add: initial_state_fields)
qed

theorem small_dataset_stops_at_first_tracker_witness:
  "\<exists>s. main toy_env toy_built 3 511 = Inl (Eigh_of_None, s) \<and> F s = None \<and> losses s = [] \<and>
       files s = [] \<and> opt s = 0"
proof -
  have "(1::int) \<le> 3" and "num_train_images toy_env (CIFAR10 toy_env 511) < 512"
    by (simp_all add: toy_data)
  from small_dataset_stops_at_first_tracker [OF this, of toy_built]
  show ?thesis by (auto simp add: toy_built_def)
qed

end
